theory Spec2Isabelle
  imports Complex_Main "HOL-Library.Multiset"
begin

section \<open>Errors raised by the converter\<close>

text \<open>
  Every exception the modelled Python code can raise is a value of this type; a fallible
  function returns \<open>py_error + 'a\<close> with \<open>Inl\<close> carrying the exception.
\<close>

datatype py_error =
    IndexError
  | ValueError string
  | NameError string
  | AttributeError string
  | AssertionError

section \<open>Element construction of \<open>Reader.write_geometry\<close> (reader.py, lines 151-173)\<close>

text \<open>
  \<open>np.ravel_multi_index\<close> in its default C (row-major) order: the last index varies
  fastest. For a two-dimensional grid of shape \<open>(n0, n1)\<close> the flat index of \<open>(i, j)\<close> is
  \<open>i * n1 + j\<close>. NumPy raises when an index is outside the shape; \<open>in_bounds\<close> is that check
  and \<open>corners_in_bounds\<close> below shows it never fires for the cells built here.
\<close>

definition ravel_multi_index :: "nat list \<Rightarrow> nat list \<Rightarrow> nat" where
  "ravel_multi_index idx shape = foldl (\<lambda>acc (i, n). acc * n + i) 0 (zip idx shape)"

definition in_bounds :: "nat list \<Rightarrow> nat list \<Rightarrow> bool" where
  "in_bounds idx shape \<longleftrightarrow> length idx = length shape \<and> list_all2 (<) idx shape"

text \<open>
  \<open>ranges = [range(k-1) for k in nodes.shape[:-1]]\<close> and \<open>product(*ranges)\<close>: the cell
  origins, in the order \<open>itertools.product\<close> enumerates them (last range fastest).
\<close>

definition cell_origins :: "nat list \<Rightarrow> nat list list" where
  "cell_origins shape = product_lists (map (\<lambda>k. [0..<k - 1]) shape)"

text \<open>
  One row of \<open>eidxs\<close>. The source has a branch for one, two and three parametric
  directions; for any other number the row keeps the zeros of \<open>np.zeros\<close>. The array
  holds node indices, whole numbers kept in floating point; they are natural numbers here.
\<close>

fun cell_row :: "nat list \<Rightarrow> nat list \<Rightarrow> nat list" where
  "cell_row shape [i] = [i, i + 1]"
| "cell_row shape [i, j] =
     [ravel_multi_index [i, j] shape,
      ravel_multi_index [i + 1, j] shape,
      ravel_multi_index [i + 1, j + 1] shape,
      ravel_multi_index [i, j + 1] shape]"
| "cell_row shape [i, j, k] =
     [ravel_multi_index [i, j, k] shape,
      ravel_multi_index [i + 1, j, k] shape,
      ravel_multi_index [i + 1, j + 1, k] shape,
      ravel_multi_index [i, j + 1, k] shape,
      ravel_multi_index [i, j, k + 1] shape,
      ravel_multi_index [i + 1, j, k + 1] shape,
      ravel_multi_index [i + 1, j + 1, k + 1] shape,
      ravel_multi_index [i, j + 1, k + 1] shape]"
| "cell_row shape idx = replicate (2 ^ length idx) 0"

text \<open>
  \<open>nidxs = [np.array(q) for q in zip(*product(*ranges))]\<close> is the empty list when there is
  no cell origin (some direction has fewer than two samples) and when there is no
  direction at all; \<open>nidxs[0]\<close> then raises \<open>IndexError\<close>.
\<close>

definition elements :: "nat list \<Rightarrow> py_error + nat list list" where
  "elements shape =
     (let origins = cell_origins shape in
      if shape = [] \<or> origins = [] then Inl IndexError
      else Inr (map (cell_row shape) origins))"

text \<open>
  \<open>nodes = patch(*node.tesselation)\<close>: the patch is evaluated on the tensor grid of the
  schedule, giving an array of shape \<open>(n0, ..., nd-1, 3)\<close>; \<open>np.ndarray.flatten\<close> lists
  the nodes in row-major order. Spline evaluation belongs to the external spline
  library, so the point evaluation \<open>ev\<close> is a parameter.
\<close>

definition eval_grid :: "('c list \<Rightarrow> 'p) \<Rightarrow> 'c list list \<Rightarrow> 'p list" where
  "eval_grid ev tesselation = map ev (product_lists tesselation)"

definition grid_shape :: "'c list list \<Rightarrow> nat list" where
  "grid_shape tesselation = map length tesselation"

section \<open>The per-patch body of \<open>Reader.write_geometry\<close> (reader.py, lines 133-178)\<close>

text \<open>
  The catalogue node gains its attributes dynamically: \<open>hasattr\<close> is modelled by an
  outer \<open>option\<close> (\<open>None\<close>: the attribute does not exist yet). The attribute
  \<open>patchid\<close> itself starts as Python's \<open>None\<close>, the inner \<open>option\<close>.
\<close>

record 'c cat_node =
  patchid :: "nat option option"
  last_written :: "int option"
  tesselation :: "'c list list option"

datatype emission = Skipped | Written

text \<open>
  The body of the loop, from line 137 on, for one patch whose catalogue node is \<open>node\<close>
  and whose canonical object \<open>node.obj\<close> is \<open>obj\<close>; the lookup of the patch and of its
  node in lines 134-136 is part of \<open>write_geometry_iteration\<close> below. The spline library (\<open>knots\<close>, evaluation \<open>ev\<close>) and the
  writer's \<open>update_geometry\<close> (\<open>upd\<close>, which returns the patch ID) are parameters. The
  result is the node, the writer and whether geometry was written; an exception of the
  element construction aborts the conversion.
\<close>

definition write_geometry_patch ::
  "('o \<Rightarrow> 'c list list) \<Rightarrow> ('o \<Rightarrow> 'c list \<Rightarrow> 'c list) \<Rightarrow>
   ('w \<Rightarrow> 'c list \<Rightarrow> nat list \<Rightarrow> nat \<Rightarrow> nat option \<Rightarrow> 'w \<times> nat option) \<Rightarrow>
   int \<Rightarrow> 'o \<Rightarrow> 'c cat_node \<Rightarrow> 'w \<Rightarrow> py_error + ('c cat_node \<times> 'w \<times> emission)" where
  "write_geometry_patch knots ev upd lid obj node w =
     (let node1 = (case patchid node of None \<Rightarrow> node\<lparr>patchid := Some None\<rparr> | Some _ \<Rightarrow> node);
          node2 = (case last_written node1 of None \<Rightarrow> node1\<lparr>last_written := Some (- 1)\<rparr>
                   | Some _ \<Rightarrow> node1);
          lw = (case last_written node2 of None \<Rightarrow> - 1 | Some v \<Rightarrow> v);
          pid = (case patchid node2 of None \<Rightarrow> None | Some v \<Rightarrow> v)
      in if lw \<ge> lid then Inr (node2, w, Skipped)
         else
           (let node3 = node2\<lparr>last_written := Some lid\<rparr>;
                node4 = node3\<lparr>tesselation := Some (knots obj)\<rparr>;
                nodes = eval_grid (ev obj) (knots obj)
            in case elements (grid_shape (knots obj)) of
                 Inl e \<Rightarrow> Inl e
               | Inr eidxs \<Rightarrow>
                   (let (w', newid) = upd w (concat nodes) (concat eidxs)
                                        (length (grid_shape (knots obj))) pid
                    in Inr (node4\<lparr>patchid := Some newid\<rparr>, w', Written))))"

section \<open>\<open>Reader.basis_level\<close> (reader.py, lines 192-198)\<close>

record basis =
  basis_name :: string
  updates :: "int list"

text \<open>
  \<open>next(l for l in basis.updates[::-1] if l <= level)\<close> is the first update, scanning
  from the latest, that is not after \<open>level\<close>. When there is none, the handler of
  \<open>StopIteration\<close> builds its message with \<open>.format(basis, index)\<close>; no variable \<open>index\<close>
  exists in that scope (the parameters are \<open>self\<close>, \<open>level\<close> and \<open>basis\<close>, and the module
  defines no such global), so evaluating the argument raises \<open>NameError\<close> before the
  \<open>ValueError\<close> is constructed.
\<close>

definition basis_level :: "int \<Rightarrow> basis \<Rightarrow> py_error + int" where
  "basis_level level b =
     (case find (\<lambda>l. l \<le> level) (rev (updates b)) of
        Some l \<Rightarrow> Inr l
      | None \<Rightarrow> Inl (NameError ''index''))"

section \<open>The loop of \<open>Reader.write_geometry\<close> (reader.py, lines 133-178)\<close>

text \<open>
  One iteration of the loop, for the patch \<open>pid\<close> of the basis \<open>b\<close> at the timestep \<open>lid\<close>.
  \<open>self.patch(lid, basis, pid)\<close> first resolves the level of the latest geometry update
  with \<open>basis_level\<close>, which raises when there is none, and reads the patch stored at that
  level (\<open>read\<close>, the file and the patch cache). \<open>self.catalogue.add(patch).node\<close> is the
  catalogue node of the patch (\<open>node_of\<close>; the catalogue belongs to the spline library) and
  \<open>node.obj\<close> its canonical object (\<open>obj_of\<close>). The nodes are kept in a store indexed by
  their identity; the body of the loop then runs on the node found.
\<close>

definition write_geometry_iteration ::
  "(int \<Rightarrow> nat \<Rightarrow> 'o) \<Rightarrow> ('o \<Rightarrow> 'k) \<Rightarrow> ('k \<Rightarrow> 'o) \<Rightarrow>
   ('o \<Rightarrow> 'c list list) \<Rightarrow> ('o \<Rightarrow> 'c list \<Rightarrow> 'c list) \<Rightarrow>
   ('w \<Rightarrow> 'c list \<Rightarrow> nat list \<Rightarrow> nat \<Rightarrow> nat option \<Rightarrow> 'w \<times> nat option) \<Rightarrow>
   basis \<Rightarrow> int \<Rightarrow> nat \<Rightarrow> ('k \<Rightarrow> 'c cat_node) \<Rightarrow> 'w \<Rightarrow>
   py_error + (('k \<Rightarrow> 'c cat_node) \<times> 'w \<times> emission)" where
  "write_geometry_iteration read node_of obj_of knots ev upd b lid pid store w =
     (case basis_level lid b of
        Inl e \<Rightarrow> Inl e
      | Inr level \<Rightarrow>
          (let k = node_of (read level pid) in
           case write_geometry_patch knots ev upd lid (obj_of k) (store k) w of
             Inl e \<Rightarrow> Inl e
           | Inr (node', w', em) \<Rightarrow> Inr (store(k := node'), w', em)))"

fun write_geometry_loop ::
  "(int \<Rightarrow> nat \<Rightarrow> 'o) \<Rightarrow> ('o \<Rightarrow> 'k) \<Rightarrow> ('k \<Rightarrow> 'o) \<Rightarrow>
   ('o \<Rightarrow> 'c list list) \<Rightarrow> ('o \<Rightarrow> 'c list \<Rightarrow> 'c list) \<Rightarrow>
   ('w \<Rightarrow> 'c list \<Rightarrow> nat list \<Rightarrow> nat \<Rightarrow> nat option \<Rightarrow> 'w \<times> nat option) \<Rightarrow>
   basis \<Rightarrow> int \<Rightarrow> nat list \<Rightarrow> ('k \<Rightarrow> 'c cat_node) \<Rightarrow> 'w \<Rightarrow>
   py_error + (('k \<Rightarrow> 'c cat_node) \<times> 'w \<times> emission list)" where
  "write_geometry_loop read node_of obj_of knots ev upd b lid [] store w = Inr (store, w, [])"
| "write_geometry_loop read node_of obj_of knots ev upd b lid (pid # pids) store w =
     (case write_geometry_iteration read node_of obj_of knots ev upd b lid pid store w of
        Inl e \<Rightarrow> Inl e
      | Inr (store1, w1, em) \<Rightarrow>
          (case write_geometry_loop read node_of obj_of knots ev upd b lid pids store1 w1 of
             Inl e \<Rightarrow> Inl e
           | Inr (store2, w2, ems) \<Rightarrow> Inr (store2, w2, em # ems)))"

text \<open>
  \<open>write_geometry(w, lid, basis)\<close>: \<open>self.npatches(lid, basis)\<close> resolves the level as well,
  raising when the basis has no update at or before \<open>lid\<close>, and counts the patches stored
  there (\<open>npatches\<close>); the loop runs over that many patches. The result lists, patch by patch,
  whether geometry was written.
\<close>

definition write_geometry ::
  "(int \<Rightarrow> nat) \<Rightarrow> (int \<Rightarrow> nat \<Rightarrow> 'o) \<Rightarrow> ('o \<Rightarrow> 'k) \<Rightarrow> ('k \<Rightarrow> 'o) \<Rightarrow>
   ('o \<Rightarrow> 'c list list) \<Rightarrow> ('o \<Rightarrow> 'c list \<Rightarrow> 'c list) \<Rightarrow>
   ('w \<Rightarrow> 'c list \<Rightarrow> nat list \<Rightarrow> nat \<Rightarrow> nat option \<Rightarrow> 'w \<times> nat option) \<Rightarrow>
   basis \<Rightarrow> int \<Rightarrow> ('k \<Rightarrow> 'c cat_node) \<Rightarrow> 'w \<Rightarrow>
   py_error + (('k \<Rightarrow> 'c cat_node) \<times> 'w \<times> emission list)" where
  "write_geometry npatches read node_of obj_of knots ev upd b lid store w =
     (case basis_level lid b of
        Inl e \<Rightarrow> Inl e
      | Inr level \<Rightarrow>
          write_geometry_loop read node_of obj_of knots ev upd b lid [0..<npatches level] store w)"

text \<open>
  A node is settled at \<open>t\<close> when it carries its attributes and was last written at \<open>t\<close> or
  later.
\<close>

definition settled :: "int \<Rightarrow> 'c cat_node \<Rightarrow> bool" where
  "settled t node \<longleftrightarrow>
     (case last_written node of
        None \<Rightarrow> False
      | Some v \<Rightarrow> t \<le> v \<and> patchid node \<noteq> None)"

text \<open>
  A reader with one basis holding a single bilinear patch, whose geometry is first stored
  at timestep 2 (or at timesteps 0 and 2), each patch being its own catalogue node, and a
  writer that counts the geometries it receives; they serve to evaluate \<open>write_geometry\<close>
  on concrete requests.
\<close>

definition late_basis :: basis where
  "late_basis = \<lparr>basis_name = ''Basis_1'', updates = [2]\<rparr>"

definition two_updates :: basis where
  "two_updates = \<lparr>basis_name = ''Basis_1'', updates = [0, 2]\<rparr>"

definition one_patch :: "int \<Rightarrow> nat" where
  "one_patch level = 1"

definition stored_patch :: "int \<Rightarrow> nat \<Rightarrow> nat" where
  "stored_patch level pid = pid"

definition own_node :: "nat \<Rightarrow> nat" where
  "own_node patch = patch"

definition canonical :: "nat \<Rightarrow> nat" where
  "canonical k = k"

definition unit_square_knots :: "nat \<Rightarrow> real list list" where
  "unit_square_knots obj = [[0, 1], [0, 1]]"

definition identity_patch :: "nat \<Rightarrow> real list \<Rightarrow> real list" where
  "identity_patch obj u = u"

definition counting_writer :: "nat \<Rightarrow> real list \<Rightarrow> nat list \<Rightarrow> nat \<Rightarrow> nat option \<Rightarrow> nat \<times> nat option" where
  "counting_writer w nodes eidxs d pid = (Suc w, Some 7)"

definition fresh_nodes :: "nat \<Rightarrow> real cat_node" where
  "fresh_nodes k = \<lparr>patchid = None, last_written = None, tesselation = None\<rparr>"

definition written_node :: "real cat_node" where
  "written_node = \<lparr>patchid = Some (Some 7), last_written = Some 2,
                    tesselation = Some [[0, 1], [0, 1]]\<rparr>"

section \<open>The writer protocol (writer.py)\<close>

text \<open>
  Modelled from the spec: \<open>GeometryManager\<close> (module \<open>geometry\<close>) is not among the source
  files; only its use \<open>self._geometry.update(patch, data)\<close> is. Following the specification,
  it hands out global IDs in first-discovery order starting at 0: a patch key seen before
  keeps its ID, a new key gets the next unused number.
\<close>

record 'k geometry_manager =
  patch_keys :: "'k \<rightharpoonup> nat"
  next_id :: nat

definition GeometryManager_init :: "'k geometry_manager" where
  "GeometryManager_init = \<lparr>patch_keys = Map.empty, next_id = 0\<rparr>"

definition GeometryManager_update :: "'k geometry_manager \<Rightarrow> 'k \<Rightarrow> 'k geometry_manager \<times> nat" where
  "GeometryManager_update gm key =
     (case patch_keys gm key of
        Some i \<Rightarrow> (gm, i)
      | None \<Rightarrow> (gm\<lparr>patch_keys := (patch_keys gm)(key \<mapsto> next_id gm),
                      next_id := next_id gm + 1\<rparr>, next_id gm))"

record 'k writer =
  stepid :: int
  step_finalized :: bool
  geometry_finalized :: bool
  geometry :: "'k geometry_manager"

text \<open>\<open>Writer.__init__\<close> followed by \<open>Writer.__enter__\<close>.\<close>

definition Writer_enter :: "'k writer" where
  "Writer_enter = \<lparr>stepid = - 1, step_finalized = True, geometry_finalized = True,
                    geometry = GeometryManager_init\<rparr>"

text \<open>
  The context managers \<open>step\<close>, \<open>geometry\<close> and \<open>field\<close> are generators: the code before
  \<open>yield\<close> runs when the \<open>with\<close> block is entered, the code after it when the block is
  left normally. A failing \<open>assert\<close> raises \<open>AssertionError\<close>. The dictionary \<open>stepdata\<close>
  is only stored, never read by the protocol, and is left out. The functions work on any
  extension of the writer record, as the methods do on any subclass.
\<close>

definition step_enter :: "('k, 'z) writer_scheme \<Rightarrow> py_error + ('k, 'z) writer_scheme" where
  "step_enter w =
     (if \<not> step_finalized w then Inl AssertionError
      else Inr (w\<lparr>stepid := stepid w + 1, step_finalized := False, geometry_finalized := False\<rparr>))"

definition step_exit :: "('k, 'z) writer_scheme \<Rightarrow> py_error + ('k, 'z) writer_scheme" where
  "step_exit w =
     (if \<not> geometry_finalized w then Inl AssertionError
      else if step_finalized w then Inl AssertionError
      else Inr (w\<lparr>step_finalized := True\<rparr>))"

definition geometry_enter :: "('k, 'z) writer_scheme \<Rightarrow> py_error + ('k, 'z) writer_scheme" where
  "geometry_enter w = Inr (w\<lparr>geometry_finalized := False\<rparr>)"

definition geometry_exit :: "('k, 'z) writer_scheme \<Rightarrow> py_error + ('k, 'z) writer_scheme" where
  "geometry_exit w = Inr (w\<lparr>geometry_finalized := True\<rparr>)"

definition field_enter :: "('k, 'z) writer_scheme \<Rightarrow> py_error + ('k, 'z) writer_scheme" where
  "field_enter w = (if \<not> geometry_finalized w then Inl AssertionError else Inr w)"

text \<open>\<open>Writer.update_geometry\<close>: asserts that geometry is open and returns the global ID.\<close>

definition Writer_update_geometry ::
  "('k, 'z) writer_scheme \<Rightarrow> 'k \<Rightarrow> py_error + (('k, 'z) writer_scheme \<times> nat)" where
  "Writer_update_geometry w key =
     (if geometry_finalized w then Inl AssertionError
      else (let (gm, i) = GeometryManager_update (geometry w) key
            in Inr (w\<lparr>geometry := gm\<rparr>, i)))"

section \<open>\<open>VTFWriter.update_geometry\<close> for unstructured patches (vtf.py, lines 93-116)\<close>

text \<open>
  A geometry block pairs the part number \<open>patchid + 1\<close> bound by \<open>BindNodeBlock\<close> with the
  geometry written into the node and element blocks (\<open>'g\<close>: the flattened nodes and cells).
\<close>

record ('k, 'g) vtf_writer = "'k writer" +
  geometry_blocks :: "(nat \<times> 'g) list"
  dirty_geometry :: bool

text \<open>\<open>VTFWriter.__init__\<close> and \<open>__enter__\<close>, then a step opened for geometry.\<close>

definition VTFWriter_enter :: "('k, 'g) vtf_writer" where
  "VTFWriter_enter = \<lparr>stepid = - 1, step_finalized = True, geometry_finalized = True,
                       geometry = GeometryManager_init, geometry_blocks = [], dirty_geometry = False\<rparr>"



text \<open>\<open>step_enter\<close> applied to a fresh writer: the state in which geometry is accepted.\<close>

definition VTFWriter_open :: "('k, 'g) vtf_writer" where
  "VTFWriter_open = VTFWriter_enter\<lparr>stepid := 0, step_finalized := False, geometry_finalized := False\<rparr>"

text \<open>The keys in the order of their first discovery.\<close>

definition first_discovery :: "'k list \<Rightarrow> 'k list" where
  "first_discovery ks = rev (remdups (rev ks))"


section \<open>NaN filtering of the VTK writers (vtk.py, lines 47-52 and 155-156)\<close>

text \<open>
  A field value is a floating-point number; only the distinction between NaN and the other
  values matters to the filter. The configured output mode is a string.
\<close>

datatype float = NaN | Num real

definition isnan :: "float \<Rightarrow> bool" where
  "isnan x \<longleftrightarrow> x = NaN"

text \<open>\<open>I, J = np.where(np.isnan(data))\<close>: the positions of the NaN entries, in row-major order.\<close>

definition where_isnan :: "float list list \<Rightarrow> (nat \<times> nat) list" where
  "where_isnan data =
     concat (map (\<lambda>i. map (\<lambda>j. (i, j)) (filter (\<lambda>j. isnan (data ! i ! j)) [0..<length (data ! i)]))
              [0..<length data])"

text \<open>\<open>data[I, J] = 0.0\<close>: one assignment for each listed position.\<close>

definition assign_zero :: "float list list \<Rightarrow> (nat \<times> nat) list \<Rightarrow> float list list" where
  "assign_zero data ps = foldl (\<lambda>d (i, j). d[i := (d ! i)[j := Num 0]]) data ps"

text \<open>The result is the data and the warnings logged.\<close>

definition VTKWriter_nan_filter :: "string \<Rightarrow> float list list \<Rightarrow> float list list \<times> string list" where
  "VTKWriter_nan_filter output_mode data =
     (let ps = where_isnan data in
      if length ps > 0 \<and> output_mode = ''ascii''
      then (assign_zero data ps, [''VTK ASCII files do not support NaN, will be set to zero''])
      else (data, []))"

definition VTUWriter_nan_filter :: "string \<Rightarrow> float list list \<Rightarrow> float list list \<times> string list" where
  "VTUWriter_nan_filter output_mode results = (results, [])"

text \<open>
  Method resolution: \<open>VTUWriter\<close> overrides \<open>nan_filter\<close>, and \<open>PVDWriter\<close> inherits the
  override from \<open>VTUWriter\<close>.
\<close>

datatype writer_class = VTKWriter | VTUWriter | PVDWriter

fun nan_filter :: "writer_class \<Rightarrow> string \<Rightarrow> float list list \<Rightarrow> float list list \<times> string list" where
  "nan_filter VTKWriter output_mode data = VTKWriter_nan_filter output_mode data"
| "nan_filter VTUWriter output_mode data = VTUWriter_nan_filter output_mode data"
| "nan_filter PVDWriter output_mode data = VTUWriter_nan_filter output_mode data"

section \<open>Field tesselation: \<open>_tesselated_patch\<close>, \<open>_tesselate\<close>, \<open>write_field\<close> (reader.py, lines 73-131)\<close>



text \<open>
  \<open>splipy.utils.reshape(coeffs, shape, order='F')\<close>: the number of components is the size
  divided by the number of control points, and the reshape fails when the size is not
  their product. The result is the number of components and the control points, one row
  each, in the order of the coefficients.
\<close>

definition reshape :: "'c list \<Rightarrow> nat list \<Rightarrow> py_error + (nat \<times> 'c list list)" where
  "reshape cps newshape =
     (let npts = prod_list newshape;
          ncomps = length cps div npts
      in if npts * ncomps \<noteq> length cps then Inl (ValueError ''cannot reshape array'')
         else Inr (ncomps, map (\<lambda>r. take ncomps (drop (r * ncomps) cps)) [0..<npts]))"










datatype field_kind = POINTVALUES | CELLVALUES | EIGENMODE

text \<open>The namedtuple \<open>Field\<close> (name, basis, ncomps, kind).\<close>

record field =
  field_name :: string
  field_basis :: basis
  ncomps :: nat
  kind :: field_kind

text \<open>
  A call \<open>w.update_field(results, name, pid, kind, cells=...)\<close> as the writer receives it. The
  name is the name of the field and, for a single component, its number (the text
  \<open>name[i+1]\<close>); \<open>cells\<close> is \<open>None\<close> when the argument is not passed.
\<close>

record field_update =
  results :: "real list"
  update_name :: "string \<times> nat option"
  update_pid :: nat
  update_kind :: string
  update_cells :: "bool option"



















section \<open>The VTK writer under the protocol (vtk.py, lines 65-71; writer.py, lines 81-111)\<close>

text \<open>
  \<open>VTKWriter\<close> adds to the writer the topologies and the field data it has received. A
  field is stored with its \<open>cells\<close> flag and its data per patch (the dataclass \<open>Field\<close>).
\<close>

text \<open>The attribute \<open>fields\<close> of the writer is the field \<open>vtk_fields\<close> of the record.\<close>

record ('k, 'g) vtk_writer = "'k writer" +
  topologies :: "'k \<rightharpoonup> 'g"
  vtk_fields :: "string \<rightharpoonup> bool \<times> ('k \<rightharpoonup> float list list)"

definition VTKWriter_enter :: "('k, 'g) vtk_writer" where
  "VTKWriter_enter = \<lparr>stepid = - 1, step_finalized = True, geometry_finalized = True,
                       geometry = GeometryManager_init, topologies = Map.empty, vtk_fields = Map.empty\<rparr>"

text \<open>\<open>VTKWriter.update_geometry\<close>: the check of the superclass, then the topology is stored.\<close>

definition VTKWriter_update_geometry ::
  "('k, 'g) vtk_writer \<Rightarrow> 'k \<Rightarrow> 'g \<Rightarrow> py_error + ('k, 'g) vtk_writer" where
  "VTKWriter_update_geometry w key geom =
     (case Writer_update_geometry w key of
        Inl e \<Rightarrow> Inl e
      | Inr (w', _) \<Rightarrow> Inr (w'\<lparr>topologies := (topologies w')(key \<mapsto> geom)\<rparr>))"

text \<open>
  \<open>VTKWriter.update_field\<close>: the data is brought to three components (\<open>util.ensure_ncomps\<close>, a
  parameter that may raise), filtered for NaN and stored under the name of the field and
  the key of the patch. The method reads neither \<open>geometry_finalized\<close> nor
  \<open>step_finalized\<close>. The updater that \<open>Writer.field\<close> yields is this method with the field
  filled in, so a call of the updater is a call of this method.
\<close>

definition VTKWriter_update_field ::
  "(float list list \<Rightarrow> nat \<Rightarrow> bool \<Rightarrow> py_error + float list list) \<Rightarrow> string \<Rightarrow>
   ('k, 'g) vtk_writer \<Rightarrow> string \<Rightarrow> bool \<Rightarrow> bool \<Rightarrow> 'k \<Rightarrow> float list list \<Rightarrow>
   py_error + ('k, 'g) vtk_writer" where
  "VTKWriter_update_field ensure_ncomps output_mode w fname cells is_scalar key data =
     (case ensure_ncomps data 3 is_scalar of
        Inl e \<Rightarrow> Inl e
      | Inr data' \<Rightarrow>
          (let filtered = fst (VTKWriter_nan_filter output_mode data');
               entry = (case vtk_fields w fname of None \<Rightarrow> (cells, Map.empty) | Some f \<Rightarrow> f)
           in Inr (w\<lparr>vtk_fields := (vtk_fields w)(fname \<mapsto> (fst entry, (snd entry)(key \<mapsto> filtered)))\<rparr>)))"

text \<open>
  The calls a reader can make on the writer: entering and leaving the contexts \<open>step\<close>,
  \<open>geometry\<close> and \<open>field\<close>, and the two update methods. A run of calls stops at the first
  error. What \<open>VTKWriter.step\<close> does after the step is closed, writing the file, is not part
  of the protocol and is left out.
\<close>

datatype ('k, 'g) call =
    StepEnter | StepExit | GeometryEnter | GeometryExit | FieldEnter
  | UpdateGeometry 'k 'g
  | UpdateField string bool bool 'k "float list list"

fun perform ::
  "(float list list \<Rightarrow> nat \<Rightarrow> bool \<Rightarrow> py_error + float list list) \<Rightarrow> string \<Rightarrow>
   ('k, 'g) vtk_writer \<Rightarrow> ('k, 'g) call \<Rightarrow> py_error + ('k, 'g) vtk_writer" where
  "perform ensure_ncomps output_mode w StepEnter = step_enter w"
| "perform ensure_ncomps output_mode w StepExit = step_exit w"
| "perform ensure_ncomps output_mode w GeometryEnter = geometry_enter w"
| "perform ensure_ncomps output_mode w GeometryExit = geometry_exit w"
| "perform ensure_ncomps output_mode w FieldEnter = field_enter w"
| "perform ensure_ncomps output_mode w (UpdateGeometry key geom) =
     VTKWriter_update_geometry w key geom"
| "perform ensure_ncomps output_mode w (UpdateField fname cells is_scalar key data) =
     VTKWriter_update_field ensure_ncomps output_mode w fname cells is_scalar key data"

fun run ::
  "(float list list \<Rightarrow> nat \<Rightarrow> bool \<Rightarrow> py_error + float list list) \<Rightarrow> string \<Rightarrow>
   ('k, 'g) vtk_writer \<Rightarrow> ('k, 'g) call list \<Rightarrow> py_error + ('k, 'g) vtk_writer" where
  "run ensure_ncomps output_mode w [] = Inr w"
| "run ensure_ncomps output_mode w (c # cs) =
     (case perform ensure_ncomps output_mode w c of
        Inl e \<Rightarrow> Inl e
      | Inr w' \<Rightarrow> run ensure_ncomps output_mode w' cs)"

text \<open>
  Data that already has its components, a writer inside an open geometry context, and the
  same writer after it has stored the field \<open>p\<close> for patch 0.
\<close>

definition keep_ncomps :: "float list list \<Rightarrow> nat \<Rightarrow> bool \<Rightarrow> py_error + float list list" where
  "keep_ncomps data n allow_scalar = Inr data"

definition geometry_open_writer :: "(nat, nat) vtk_writer" where
  "geometry_open_writer =
     \<lparr>stepid = 0, step_finalized = False, geometry_finalized = False,
      geometry = \<lparr>patch_keys = [0 \<mapsto> 0], next_id = 1\<rparr>,
      topologies = [0 \<mapsto> 5], vtk_fields = Map.empty\<rparr>"

definition field_stored_writer :: "(nat, nat) vtk_writer" where
  "field_stored_writer =
     geometry_open_writer\<lparr>vtk_fields := [''p'' \<mapsto> (False, [0 \<mapsto> [[Num 1]]])]\<rparr>"

section \<open>The WRF reader: periodic meshes (wrf.py)\<close>

text \<open>The configuration options the WRF reader consults.\<close>

record config =
  periodic :: bool
  volumetric :: string
  mapping :: string

text \<open>
  Modelled from the spec: \<open>util.structured_cells(cellshape, pardim, nodemap)\<close> is imported
  by wrf.py but is not among the source files. Following the specification of the periodic
  mesh builder, it produces the structured connectivity with the winding rule of the
  tesselator for a grid of \<open>cellshape\<close> cells, that is for the node grid with one more node
  than cells in each direction; this is the element construction of \<open>write_geometry\<close>
  above. A node map, when given, translates every node index (\<open>nodemap.flat[eidxs]\<close>); an
  index outside the map raises \<open>IndexError\<close>. \<open>pardim\<close> must be the number of directions.
\<close>

definition structured_cells :: "nat list \<Rightarrow> nat \<Rightarrow> int list option \<Rightarrow> py_error + int list list" where
  "structured_cells cellshape pardim nodemap =
     (if pardim \<noteq> length cellshape then Inl (ValueError ''wrong number of directions'')
      else case elements (map Suc cellshape) of
             Inl e \<Rightarrow> Inl e
           | Inr eidxs \<Rightarrow>
               (case nodemap of
                  None \<Rightarrow> Inr (map (map int) eidxs)
                | Some flat \<Rightarrow>
                    if list_all (list_all (\<lambda>e. e < length flat)) eidxs
                    then Inr (map (map (\<lambda>e. flat ! e)) eidxs)
                    else Inl IndexError))"

text \<open>
  \<open>util.nodemap(shape, strides, periodic, init)\<close> is not among the source files either and
  the specification does not describe it, so the builder of node maps is a parameter of
  the mesh construction: a function from the four arguments to a two-dimensional array.
\<close>

type_synonym nodemap_builder = "nat list \<Rightarrow> int list \<Rightarrow> nat list \<Rightarrow> int \<Rightarrow> int list list"

text \<open>\<open>nodemap[r] = nodemap[r, 0]\<close>: the whole row becomes its first entry.\<close>

definition assign_row :: "int list list \<Rightarrow> nat \<Rightarrow> py_error + int list list" where
  "assign_row nodemap r =
     (if r < length nodemap \<and> 0 < length (nodemap ! r)
      then Inr (nodemap[r := replicate (length (nodemap ! r)) (nodemap ! r ! 0)])
      else Inl IndexError)"

text \<open>
  \<open>WRFReader.periodic_planar_mesh\<close> (lines 233-263), with \<open>planar_shape\<close> and \<open>nplanar\<close>
  written out: the structured cells, then the seam in the longitude direction, then the
  cells tying the southern boundary to the south pole, then those of the north pole.
\<close>

definition periodic_planar_mesh ::
  "nodemap_builder \<Rightarrow> config \<Rightarrow> nat \<Rightarrow> nat \<Rightarrow> py_error + int list list" where
  "periodic_planar_mesh mknodemap cfg nlatitude nlongitude =
     (if \<not> periodic cfg then Inl AssertionError
      else if volumetric cfg \<noteq> ''planar'' then Inl AssertionError
      else
        case structured_cells [nlatitude - 1, nlongitude - 1] 2 None of
          Inl e \<Rightarrow> Inl e
        | Inr cells \<Rightarrow>
        case structured_cells [nlatitude - 1, 1] 2
               (Some (concat (mknodemap [nlatitude, 2]
                                [int nlongitude, int nlongitude - 1] [] 0))) of
          Inl e \<Rightarrow> Inl e
        | Inr seam \<Rightarrow>
        case assign_row (mknodemap [2, nlongitude + 1] [int (nlatitude * nlongitude), 1] [1] 0) 1 of
          Inl e \<Rightarrow> Inl e
        | Inr south_map \<Rightarrow>
        case structured_cells [1, nlongitude] 2 (Some (concat south_map)) of
          Inl e \<Rightarrow> Inl e
        | Inr south \<Rightarrow>
        case assign_row (mknodemap [2, nlongitude + 1] [- int nlongitude - 1, 1] [1]
                           (int (nlatitude * nlongitude) + 1)) 0 of
          Inl e \<Rightarrow> Inl e
        | Inr north_map \<Rightarrow>
        case structured_cells [1, nlongitude] 2 (Some (concat north_map)) of
          Inl e \<Rightarrow> Inl e
        | Inr north \<Rightarrow> Inr (((cells @ seam) @ south) @ north))"

text \<open>An array of \<open>r\<close> rows of \<open>c\<close> entries.\<close>

definition has_shape :: "int list list \<Rightarrow> nat \<Rightarrow> nat \<Rightarrow> bool" where
  "has_shape a r c \<longleftrightarrow> length a = r \<and> list_all (\<lambda>row. length row = c) a"

text \<open>
  One builder of node maps, used to evaluate the mesh on a concrete grid: the entry at
  \<open>(i, j)\<close> is \<open>init + i * strides[0] + j * strides[1]\<close>, and along a periodic second axis the
  last index wraps around to the first.
\<close>

definition strided_nodemap :: nodemap_builder where
  "strided_nodemap shp strides periodic_axes init =
     map (\<lambda>i. map (\<lambda>j. init + int i * strides ! 0
                        + int (if 1 \<in> set periodic_axes then j mod (shp ! 1 - 1) else j) * strides ! 1)
                [0..<shp ! 1])
         [0..<shp ! 0]"

section \<open>The WRF reader: node arrays (wrf.py, lines 107-151 and 178-231)\<close>

text \<open>
  NumPy arrays of rank 0 to 3 as nested lists. The operations below are the ones
  \<open>variable_at\<close> applies, each with the error NumPy raises where it does.
\<close>

datatype 'a ndarray = A0 'a | A1 "'a list" | A2 "'a list list" | A3 "'a list list list"

fun np_size :: "'a ndarray \<Rightarrow> nat" where
  "np_size (A0 x) = 1"
| "np_size (A1 xs) = length xs"
| "np_size (A2 d) = length (concat d)"
| "np_size (A3 d) = length (concat (concat d))"

text \<open>\<open>data[0]\<close> and \<open>data[-1]\<close>\<close>

fun index_first :: "'a ndarray \<Rightarrow> py_error + 'a ndarray" where
  "index_first (A0 x) = Inl IndexError"
| "index_first (A1 xs) = (if xs = [] then Inl IndexError else Inr (A0 (xs ! 0)))"
| "index_first (A2 d) = (if d = [] then Inl IndexError else Inr (A1 (d ! 0)))"
| "index_first (A3 d) = (if d = [] then Inl IndexError else Inr (A2 (d ! 0)))"

fun index_last :: "'a ndarray \<Rightarrow> py_error + 'a ndarray" where
  "index_last (A0 x) = Inl IndexError"
| "index_last (A1 xs) = (if xs = [] then Inl IndexError else Inr (A0 (last xs)))"
| "index_last (A2 d) = (if d = [] then Inl IndexError else Inr (A1 (last d)))"
| "index_last (A3 d) = (if d = [] then Inl IndexError else Inr (A2 (last d)))"

text \<open>\<open>data[..., 0, :]\<close> and \<open>data[..., -1, :]\<close>: the first and the last row of every layer.\<close>

fun boundary_first :: "'a ndarray \<Rightarrow> py_error + 'a ndarray" where
  "boundary_first (A2 d) = (if d = [] then Inl IndexError else Inr (A1 (d ! 0)))"
| "boundary_first (A3 d) =
     (if list_ex (\<lambda>l. l = []) d then Inl IndexError else Inr (A2 (map (\<lambda>l. l ! 0) d)))"
| "boundary_first _ = Inl IndexError"

fun boundary_last :: "'a ndarray \<Rightarrow> py_error + 'a ndarray" where
  "boundary_last (A2 d) = (if d = [] then Inl IndexError else Inr (A1 (last d)))"
| "boundary_last (A3 d) =
     (if list_ex (\<lambda>l. l = []) d then Inl IndexError else Inr (A2 (map last d)))"
| "boundary_last _ = Inl IndexError"

text \<open>\<open>np.mean(a, axis=-1)\<close>, with the mean of a one-dimensional array as a parameter.\<close>

fun mean_last :: "('a list \<Rightarrow> 'a) \<Rightarrow> 'a ndarray \<Rightarrow> py_error + 'a ndarray" where
  "mean_last mean (A0 x) = Inl (ValueError ''axis -1 is out of bounds'')"
| "mean_last mean (A1 xs) = Inr (A0 (mean xs))"
| "mean_last mean (A2 d) = Inr (A1 (map mean d))"
| "mean_last mean (A3 d) = Inr (A2 (map (map mean) d))"

fun flatten :: "'a ndarray \<Rightarrow> 'a list" where
  "flatten (A0 x) = [x]"
| "flatten (A1 xs) = xs"
| "flatten (A2 d) = concat d"
| "flatten (A3 d) = concat (concat d)"

text \<open>\<open>data.reshape((nvertical, -1))\<close>\<close>

definition reshape_rows :: "nat \<Rightarrow> 'a ndarray \<Rightarrow> py_error + 'a list list" where
  "reshape_rows nv data =
     (let flat = flatten data; m = length flat div nv
      in if nv = 0 \<or> nv * m \<noteq> length flat then Inl (ValueError ''cannot reshape array'')
         else Inr (map (\<lambda>r. take m (drop (r * m) flat)) [0..<nv]))"

text \<open>
  \<open>np.array([south, north]).T\<close> for two scalars or two vectors of one length. Pole values
  of any other kind do not make an array that can be appended to flattened data, and the
  failure is NumPy's \<open>ValueError\<close> in every such case.
\<close>

fun stack_T :: "'a ndarray \<Rightarrow> 'a ndarray \<Rightarrow> py_error + 'a ndarray" where
  "stack_T (A0 s) (A0 n) = Inr (A1 [s, n])"
| "stack_T (A1 ss) (A1 ns) =
     (if length ss = length ns then Inr (A2 (map (\<lambda>(s, n). [s, n]) (zip ss ns)))
      else Inl (ValueError ''inhomogeneous shape''))"
| "stack_T _ _ = Inl (ValueError ''inhomogeneous shape'')"

text \<open>\<open>np.append(data, appendix, axis=-1)\<close> for flattened data and for rows of data.\<close>

fun append_flat :: "'a list \<Rightarrow> 'a ndarray \<Rightarrow> py_error + 'a list" where
  "append_flat xs (A1 ys) = Inr (xs @ ys)"
| "append_flat xs _ = Inl (ValueError ''all the input arrays must have same number of dimensions'')"

fun append_rows :: "'a list list \<Rightarrow> 'a ndarray \<Rightarrow> py_error + 'a list list" where
  "append_rows d (A2 a) =
     (if length d = length a then Inr (map (\<lambda>(xs, ys). xs @ ys) (zip d a))
      else Inl (ValueError ''all the input array dimensions must match''))"
| "append_rows d _ = Inl (ValueError ''all the input arrays must have same number of dimensions'')"

definition endswith_stag :: "string \<Rightarrow> bool" where
  "endswith_stag dname \<longleftrightarrow> 5 \<le> length dname \<and> drop (length dname - 5) dname = ''_stag''"

text \<open>
  The loop that un-staggers every staggered axis; \<open>util.unstagger\<close> is a parameter. The
  loop also strips the suffix from the dimension names, which are not read afterwards;
  only their number is.
\<close>

fun unstagger_all ::
  "('a ndarray \<Rightarrow> nat \<Rightarrow> 'a ndarray) \<Rightarrow> (nat \<times> string) list \<Rightarrow> 'a ndarray \<Rightarrow> 'a ndarray" where
  "unstagger_all unstagger [] data = data"
| "unstagger_all unstagger ((i, dname) # ds) data =
     unstagger_all unstagger ds (if endswith_stag dname then unstagger data i else data)"

text \<open>The polar values of \<open>variable_at\<close>, with \<open>util.angle_mean_deg\<close> as a parameter.\<close>

definition polar_values ::
  "('a list \<Rightarrow> 'a) \<Rightarrow> ('a ndarray \<Rightarrow> 'a ndarray) \<Rightarrow> string \<Rightarrow> 'a ndarray \<Rightarrow>
   py_error + ('a ndarray \<times> 'a ndarray)" where
  "polar_values mean angle_mean_deg vname data =
     (if vname \<in> {''XLONG'', ''XLAT''} then
        (case index_first data of Inl e \<Rightarrow> Inl e | Inr first \<Rightarrow>
         case index_last data of Inl e \<Rightarrow> Inl e | Inr lst \<Rightarrow>
           Inr (angle_mean_deg first, angle_mean_deg lst))
      else
        (case boundary_first data of Inl e \<Rightarrow> Inl e | Inr first \<Rightarrow>
         case mean_last mean first of Inl e \<Rightarrow> Inl e | Inr south \<Rightarrow>
         case boundary_last data of Inl e \<Rightarrow> Inl e | Inr lst \<Rightarrow>
         case mean_last mean lst of Inl e \<Rightarrow> Inl e | Inr north \<Rightarrow>
           Inr (south, north)))"

text \<open>
  \<open>WRFReader.variable_at\<close>. \<open>dims\<close> are the dimensions of the variable after \<open>Time\<close> and
  \<open>data\<close> is \<open>self.nc[name][stepid, ...]\<close>.
\<close>

definition variable_at ::
  "('a ndarray \<Rightarrow> nat \<Rightarrow> 'a ndarray) \<Rightarrow> ('a list \<Rightarrow> 'a) \<Rightarrow> ('a ndarray \<Rightarrow> 'a ndarray) \<Rightarrow>
   config \<Rightarrow> nat \<Rightarrow> string \<Rightarrow> string list \<Rightarrow> 'a ndarray \<Rightarrow> bool \<Rightarrow> bool \<Rightarrow>
   py_error + 'a ndarray" where
  "variable_at unstagger mean angle_mean_deg cfg nvertical vname dims data
     extrude_if_planar include_poles =
     (case (if length dims = 3 \<and> volumetric cfg = ''planar''
            then (case index_first data of Inl e \<Rightarrow> Inl e | Inr surface \<Rightarrow> Inr (surface, tl dims))
            else Inr (data, dims)) of
        Inl e \<Rightarrow> Inl e
      | Inr (data1, dims1) \<Rightarrow>
     (let data2 = unstagger_all unstagger (enumerate 0 dims1) data1 in
      case (if include_poles \<and> periodic cfg
            then (case polar_values mean angle_mean_deg vname data2 of
                    Inl e \<Rightarrow> Inl e
                  | Inr (south, north) \<Rightarrow>
                      (case stack_T south north of Inl e \<Rightarrow> Inl e | Inr a \<Rightarrow> Inr (Some a)))
            else Inr None) of
        Inl e \<Rightarrow> Inl e
      | Inr appendix \<Rightarrow>
          if length dims1 = 3 then
            (case reshape_rows nvertical data2 of
               Inl e \<Rightarrow> Inl e
             | Inr rows \<Rightarrow>
                 (case appendix of
                    None \<Rightarrow> Inr (A2 rows)
                  | Some a \<Rightarrow>
                      (case append_rows rows a of Inl e \<Rightarrow> Inl e | Inr rows' \<Rightarrow> Inr (A2 rows'))))
          else
            (case (case appendix of None \<Rightarrow> Inr (flatten data2)
                   | Some a \<Rightarrow> append_flat (flatten data2) a) of
               Inl e \<Rightarrow> Inl e
             | Inr flat \<Rightarrow>
                 if extrude_if_planar \<and> length dims1 = 2 then Inr (A2 (replicate nvertical flat))
                 else Inr (A1 flat))))"

text \<open>What \<open>patch_at\<close> reads of the dataset: the sizes of its dimensions and its variables.\<close>

record 'a dataset =
  nlatitude :: nat
  nlongitude :: nat
  nvertical :: nat
  variables :: "string \<Rightarrow> string list \<times> 'a ndarray"

text \<open>
  The number \<open>nnodes\<close> of \<open>patch_at\<close>, which is the number of rows it gives the nodal
  array: the size of the horizontal coordinates, times the number of vertical layers
  unless the output is planar. With the local mapping the coordinates are a uniform grid;
  with the global mapping they are the variables \<open>XLONG\<close> and \<open>XLAT\<close>.
\<close>

definition patch_at_nnodes ::
  "('a ndarray \<Rightarrow> nat \<Rightarrow> 'a ndarray) \<Rightarrow> ('a list \<Rightarrow> 'a) \<Rightarrow> ('a ndarray \<Rightarrow> 'a ndarray) \<Rightarrow>
   config \<Rightarrow> 'a dataset \<Rightarrow> py_error + nat" where
  "patch_at_nnodes unstagger mean angle_mean_deg cfg ds =
     (case (if mapping cfg = ''local'' then Inr (nlongitude ds * nlatitude ds)
            else
              (case variable_at unstagger mean angle_mean_deg cfg (nvertical ds) ''XLONG''
                      (fst (variables ds ''XLONG'')) (snd (variables ds ''XLONG'')) False True of
                 Inl e \<Rightarrow> Inl e
               | Inr x \<Rightarrow>
              (case variable_at unstagger mean angle_mean_deg cfg (nvertical ds) ''XLAT''
                      (fst (variables ds ''XLAT'')) (snd (variables ds ''XLAT'')) False True of
                 Inl e \<Rightarrow> Inl e
               | Inr y \<Rightarrow> Inr (np_size x)))) of
        Inl e \<Rightarrow> Inl e
      | Inr nnodes \<Rightarrow>
          if volumetric cfg = ''planar'' then Inr nnodes else Inr (nnodes * nvertical ds))"

text \<open>
  A small periodic dataset with 2 latitudes, 3 longitudes and 2 vertical layers, whose
  geopotential is staggered in the vertical, and simple stand-ins for the external helpers
  (\<open>unstagger\<close> drops the lowest level, the means are sums); they serve to evaluate
  \<open>variable_at\<close> and \<open>patch_at\<close> on concrete data.
\<close>

definition example_dataset :: "int dataset" where
  "example_dataset =
     \<lparr>nlatitude = 2, nlongitude = 3, nvertical = 2,
      variables = (\<lambda>v.
        if v = ''XLONG'' then ([''south_north'', ''west_east''], A2 [[1, 2, 3], [4, 5, 6]])
        else if v = ''XLAT'' then ([''south_north'', ''west_east''], A2 [[7, 8, 9], [10, 11, 12]])
        else ([''bottom_top_stag'', ''south_north'', ''west_east''],
              A3 [[[0, 0, 0], [0, 0, 0]], [[1, 2, 3], [4, 5, 6]], [[10, 20, 30], [40, 50, 60]]]))\<rparr>"

definition drop_first_level :: "int ndarray \<Rightarrow> nat \<Rightarrow> int ndarray" where
  "drop_first_level a i = (case a of A3 d \<Rightarrow> A3 (tl d) | _ \<Rightarrow> a)"

definition total :: "int ndarray \<Rightarrow> int ndarray" where
  "total a = A0 (sum_list (flatten a))"

section \<open>Verified properties\<close>

subsection \<open>Element construction\<close>

lemma length_product_lists_prod: "length (product_lists xss) = prod_list (map length xss)"
proof (induction xss)
  case Nil
  show ?case by simp
next
  case (Cons xs xss)
  have "length (concat (map (\<lambda>x. map ((#) x) (product_lists xss)) xs))
        = length xs * length (product_lists xss)"
    by (induction xs) simp_all
  with Cons show ?case by simp
qed

lemma length_cell_origins: "length (cell_origins shape) = prod_list (map (\<lambda>k. k - 1) shape)"
  by (simp add: cell_origins_def length_product_lists_prod comp_def)

lemma prod_list_pos: "\<forall>n\<in>set ns. 0 < (n::nat) \<Longrightarrow> 0 < prod_list ns"
  by (induction ns) simp_all

lemma origins_nonempty:
  assumes "\<forall>n\<in>set shape. 2 \<le> n"
  shows "cell_origins shape \<noteq> []"
proof -
  have "0 < prod_list (map (\<lambda>k. k - 1) shape)"
    using assms by (intro prod_list_pos) auto
  then have "0 < length (cell_origins shape)"
    by (simp add: length_cell_origins)
  then show ?thesis by auto
qed

lemma length_origin: "idx \<in> set (cell_origins shape) \<Longrightarrow> length idx = length shape"
  by (auto simp: cell_origins_def dest: in_set_product_lists_length)

text \<open>
  Every corner of every cell lies inside the node grid, so \<open>np.ravel_multi_index\<close> never
  raises: an origin has \<open>i + 1 < n\<close> in each direction.
\<close>

lemma corners_in_bounds:
  assumes "idx \<in> set (cell_origins shape)"
  shows "in_bounds (map Suc idx) shape"
proof -
  from assms have "list_all2 (\<lambda>i k. i \<in> set [0..<k - 1]) idx shape"
    by (simp add: cell_origins_def product_lists_set list_all2_map2)
  then have "list_all2 (\<lambda>i n. Suc i < n) idx shape"
    by (rule list_all2_mono) auto
  then show ?thesis
    by (simp add: in_bounds_def list_all2_map1 list_all2_lengthD)
qed

lemma length_cell_row:
  "length idx \<in> {1, 2, 3} \<Longrightarrow> length (cell_row shape idx) = 2 ^ length idx"
  by (induction shape idx rule: cell_row.induct) simp_all

text \<open>
  Claim C1, as stated, fails: for the two-by-two node grid the single quad is not
  \<open>[0,1,3,2]\<close>. Under row-major flattening node \<open>(1,0)\<close> has index 2 and node \<open>(0,1)\<close> has
  index 1.
\<close>

theorem tesselate_2x2_connectivity_counterexample:
  "elements (grid_shape [[0, 1 :: real], [0, 1]]) \<noteq> Inr [[0, 1, 3, 2]]"
  by (simp add: elements_def cell_origins_def grid_shape_def ravel_multi_index_def)

text \<open>
  Claim C1, amended: a two-dimensional patch sampled at two points per direction yields
  exactly four nodes, the images of the four corners of the schedule in row-major order
  (node 0 = \<open>(u0,v0)\<close>, 1 = \<open>(u0,v1)\<close>, 2 = \<open>(u1,v0)\<close>, 3 = \<open>(u1,v1)\<close>), and exactly one quad
  element. Its connectivity follows the per-cell rule \<open>(i,j),(i+1,j),(i+1,j+1),(i,j+1)\<close> and
  is \<open>[0,2,3,1]\<close> under row-major flattening.
\<close>

theorem tesselate_2x2:
  "eval_grid ev [[u0, u1], [v0, v1]] = [ev [u0, v0], ev [u0, v1], ev [u1, v0], ev [u1, v1]] \<and>
   elements (grid_shape [[u0, u1], [v0, v1]]) = Inr [[0, 2, 3, 1]] \<and>
   [ravel_multi_index [0, 0] [2, 2], ravel_multi_index [1, 0] [2, 2],
    ravel_multi_index [1, 1] [2, 2], ravel_multi_index [0, 1] [2, 2]] = [0, 2, 3, 1]"
  by (simp add: eval_grid_def elements_def cell_origins_def grid_shape_def ravel_multi_index_def)

text \<open>
  Claim C6: for a structured tesselation with one, two or three parametric directions and
  at least two samples in each, the element construction succeeds and the number of
  elements is the product of \<open>n - 1\<close> over the directions; every element has \<open>2 ^ d\<close>
  corners.
\<close>

theorem element_count_law:
  assumes "length shape \<in> {1, 2, 3}" and "\<forall>n\<in>set shape. 2 \<le> n"
  shows "\<exists>es. elements shape = Inr es \<and>
              length es = prod_list (map (\<lambda>n. n - 1) shape) \<and>
              (\<forall>e\<in>set es. length e = 2 ^ length shape)"
proof -
  from assms(1) have ne: "shape \<noteq> []" by auto
  let ?es = "map (cell_row shape) (cell_origins shape)"
  have "elements shape = Inr ?es"
    using ne origins_nonempty[OF assms(2)] by (simp add: elements_def)
  moreover have "length ?es = prod_list (map (\<lambda>n. n - 1) shape)"
    by (simp add: length_cell_origins)
  moreover have "\<forall>e\<in>set ?es. length e = 2 ^ length shape"
    using assms(1) by (auto simp: length_cell_row length_origin)
  ultimately show ?thesis by blast
qed

theorem element_count_law_witness:
  "length [3, 4 :: nat] = 2 \<and> (2 :: nat) \<le> 3 \<and> (2 :: nat) \<le> 4 \<and>
   (\<exists>es. elements [3, 4] = Inr es \<and> length es = 6)"
  using element_count_law[of "[3, 4]"] by auto

subsection \<open>Missing geometry\<close>

text \<open>
  Claim C8 at the input \<open>level = 1\<close>, \<open>updates = [2]\<close>: no update exists at or before the
  requested timestep, and the read fails with \<open>NameError\<close> for the undefined name
  \<open>index\<close>, not with the \<open>ValueError\<close> that was to carry the basis and the timestep.
\<close>

theorem basis_level_missing_geometry:
  "basis_level 1 \<lparr>basis_name = ''Basis_1'', updates = [2]\<rparr> = Inl (NameError ''index'')"
  by (simp add: basis_level_def)

subsection \<open>Global patch IDs\<close>


lemma set_first_discovery [simp]: "set (first_discovery ks) = set ks"
  by (simp add: first_discovery_def)







lemma VTFWriter_open_step: "step_enter (VTFWriter_enter :: ('k, 'g) vtf_writer) = Inr VTFWriter_open"
  by (simp add: step_enter_def VTFWriter_enter_def VTFWriter_open_def)






subsection \<open>NaN filtering\<close>

lemma assign_zero_snoc: "assign_zero d (ps @ [(i, j)]) = (assign_zero d ps)[i := (assign_zero d ps ! i)[j := Num 0]]"
  by (simp add: assign_zero_def)

lemma update2_length:
  "i < length d \<Longrightarrow> length (d[a := (d ! a)[b := v]] ! i) = length (d ! i)"
  by (cases "a = i") simp_all

lemma update2_nth:
  "i < length d \<Longrightarrow> j < length (d ! i) \<Longrightarrow>
   d[a := (d ! a)[b := v]] ! i ! j = (if a = i \<and> b = j then v else d ! i ! j)"
  by (cases "a = i"; cases "b = j") simp_all

lemma assign_zero_shape:
  "length (assign_zero d ps) = length d \<and> (\<forall>i<length d. length (assign_zero d ps ! i) = length (d ! i))"
proof (induction ps rule: rev_induct)
  case Nil
  show ?case by (simp add: assign_zero_def)
next
  case (snoc p ps)
  obtain i j where p: "p = (i, j)" by (cases p)
  from snoc show ?case
    unfolding p assign_zero_snoc by (simp add: update2_length)
qed

lemma assign_zero_nth:
  assumes "i < length d" "j < length (d ! i)"
  shows "assign_zero d ps ! i ! j = (if (i, j) \<in> set ps then Num 0 else d ! i ! j)"
proof (induction ps rule: rev_induct)
  case Nil
  show ?case by (simp add: assign_zero_def)
next
  case (snoc p ps)
  obtain a b where p: "p = (a, b)" by (cases p)
  from assign_zero_shape[of d ps] assms
  have len: "i < length (assign_zero d ps)" "j < length (assign_zero d ps ! i)" by auto
  show ?case
    unfolding p assign_zero_snoc using snoc
    by (auto simp: update2_nth[OF len])
qed

lemma set_where_isnan:
  "set (where_isnan data) = {(i, j). i < length data \<and> j < length (data ! i) \<and> isnan (data ! i ! j)}"
  by (auto simp: where_isnan_def)

lemma assign_zero_where_isnan:
  "assign_zero data (where_isnan data) = map (map (\<lambda>x. if isnan x then Num 0 else x)) data"
proof (rule nth_equalityI)
  show "length (assign_zero data (where_isnan data)) = length (map (map (\<lambda>x. if isnan x then Num 0 else x)) data)"
    using assign_zero_shape[of data "where_isnan data"] by simp
next
  fix i assume "i < length (assign_zero data (where_isnan data))"
  then have i: "i < length data" using assign_zero_shape[of data "where_isnan data"] by simp
  show "assign_zero data (where_isnan data) ! i = map (map (\<lambda>x. if isnan x then Num 0 else x)) data ! i"
  proof (rule nth_equalityI)
    show "length (assign_zero data (where_isnan data) ! i) = length (map (map (\<lambda>x. if isnan x then Num 0 else x)) data ! i)"
      using assign_zero_shape[of data "where_isnan data"] i by simp
  next
    fix j assume "j < length (assign_zero data (where_isnan data) ! i)"
    then have j: "j < length (data ! i)" using assign_zero_shape[of data "where_isnan data"] i by simp
    show "assign_zero data (where_isnan data) ! i ! j = map (map (\<lambda>x. if isnan x then Num 0 else x)) data ! i ! j"
      using assign_zero_nth[OF i j, of "where_isnan data"] i j
      by (simp add: set_where_isnan)
  qed
qed

lemma where_isnan_empty_iff: "where_isnan data = [] \<longleftrightarrow> (\<forall>row\<in>set data. NaN \<notin> set row)"
proof -
  have "where_isnan data = [] \<longleftrightarrow> set (where_isnan data) = {}" by simp
  also have "\<dots> \<longleftrightarrow> (\<forall>i<length data. \<forall>j<length (data ! i). data ! i ! j \<noteq> NaN)"
    unfolding set_where_isnan by (auto simp: isnan_def)
  also have "\<dots> \<longleftrightarrow> (\<forall>row\<in>set data. NaN \<notin> set row)"
    by (metis in_set_conv_nth)
  finally show ?thesis .
qed

lemma map_id_no_nan:
  "\<forall>row\<in>set data. NaN \<notin> set row \<Longrightarrow> map (map (\<lambda>x. if isnan x then Num 0 else x)) data = data"
proof -
  assume a: "\<forall>row\<in>set data. NaN \<notin> set row"
  have "map (\<lambda>x. if isnan x then Num 0 else x) row = row" if "row \<in> set data" for row
    using a that by (intro map_idI) (auto simp: isnan_def)
  then show ?thesis by (rule map_idI)
qed

text \<open>
  Claim C10: the VTK writer in ascii mode returns the data with every NaN entry replaced by
  zero and all other entries as they were, and logs a warning exactly when there was a NaN;
  in binary mode (in any mode other than ascii) it returns the data unchanged, NaNs
  included, and so do the VTU and PVD writers in every mode.
\<close>

theorem nan_filter_behaviour:
  "fst (nan_filter VTKWriter ''ascii'' data) = map (map (\<lambda>x. if isnan x then Num 0 else x)) data \<and>
   (snd (nan_filter VTKWriter ''ascii'' data) \<noteq> [] \<longleftrightarrow> (\<exists>row\<in>set data. NaN \<in> set row)) \<and>
   nan_filter VTKWriter ''binary'' data = (data, []) \<and>
   (mode \<noteq> ''ascii'' \<longrightarrow> nan_filter VTKWriter mode data = (data, [])) \<and>
   nan_filter VTUWriter mode data = (data, []) \<and>
   nan_filter PVDWriter mode data = (data, [])"
  using where_isnan_empty_iff[of data] map_id_no_nan[of data]
  by (auto simp: VTKWriter_nan_filter_def VTUWriter_nan_filter_def Let_def assign_zero_where_isnan)

theorem nan_filter_behaviour_witness:
  "nan_filter VTKWriter ''ascii'' [[Num 1, NaN], [NaN, Num 2]]
     = ([[Num 1, Num 0], [Num 0, Num 2]], [''VTK ASCII files do not support NaN, will be set to zero'']) \<and>
   ''binary'' \<noteq> ''ascii'' \<and>
   nan_filter VTKWriter ''binary'' [[Num 1, NaN], [NaN, Num 2]] = ([[Num 1, NaN], [NaN, Num 2]], []) \<and>
   nan_filter VTUWriter ''ascii'' [[Num 1, NaN], [NaN, Num 2]] = ([[Num 1, NaN], [NaN, Num 2]], []) \<and>
   nan_filter PVDWriter ''ascii'' [[Num 1, NaN], [NaN, Num 2]] = ([[Num 1, NaN], [NaN, Num 2]], [])"
  using nan_filter_behaviour[of "[[Num 1, NaN], [NaN, Num 2]]" "''binary''"]
    nan_filter_behaviour[of "[[Num 1, NaN], [NaN, Num 2]]" "''ascii''"]
  by (simp add: VTKWriter_nan_filter_def where_isnan_def isnan_def assign_zero_def)

subsection \<open>The periodic planar mesh\<close>

lemma has_shape_2_5:
  assumes "has_shape a 2 5"
  obtains x0 x1 x2 x3 x4 y0 y1 y2 y3 y4 where "a = [[x0, x1, x2, x3, x4], [y0, y1, y2, y3, y4]]"
proof -
  from assms have "length a = Suc (Suc 0)" by (simp add: has_shape_def)
  then obtain r0 r1 where a: "a = [r0, r1]" by (auto simp: length_Suc_conv)
  with assms have "length r0 = Suc (Suc (Suc (Suc (Suc 0))))" "length r1 = Suc (Suc (Suc (Suc (Suc 0))))"
    by (simp_all add: has_shape_def)
  then obtain x0 x1 x2 x3 x4 y0 y1 y2 y3 y4 where
    "r0 = [x0, x1, x2, x3, x4]" "r1 = [y0, y1, y2, y3, y4]"
    by (auto simp: length_Suc_conv)
  with a that show thesis by blast
qed

lemma has_shape_3_2:
  assumes "has_shape a 3 2"
  obtains x0 x1 y0 y1 z0 z1 where "a = [[x0, x1], [y0, y1], [z0, z1]]"
proof -
  from assms have "length a = Suc (Suc (Suc 0))" by (simp add: has_shape_def)
  then obtain r0 r1 r2 where a: "a = [r0, r1, r2]" by (auto simp: length_Suc_conv)
  with assms have "length r0 = Suc (Suc 0)" "length r1 = Suc (Suc 0)" "length r2 = Suc (Suc 0)"
    by (simp_all add: has_shape_def)
  then obtain x0 x1 y0 y1 z0 z1 where
    "r0 = [x0, x1]" "r1 = [y0, y1]" "r2 = [z0, z1]"
    by (auto simp: length_Suc_conv)
  with a that show thesis by blast
qed

lemma elements_3_4: "elements (map Suc [2, 3]) = Inr [[0, 4, 5, 1], [1, 5, 6, 2], [2, 6, 7, 3], [4, 8, 9, 5], [5, 9, 10, 6], [6, 10, 11, 7]]"
  by (simp add: elements_def cell_origins_def ravel_multi_index_def upt_rec)

lemma elements_3_2: "elements (map Suc [2, 1]) = Inr [[0, 2, 3, 1], [2, 4, 5, 3]]"
  by (simp add: elements_def cell_origins_def ravel_multi_index_def upt_rec)

lemma elements_2_5: "elements (map Suc [1, 4]) = Inr [[0, 5, 6, 1], [1, 6, 7, 2], [2, 7, 8, 3], [3, 8, 9, 4]]"
  by (simp add: elements_def cell_origins_def ravel_multi_index_def upt_rec)

text \<open>
  Claim C4: for 3 samples in the latitude direction and 4 in the longitude direction, and
  every builder of node maps that returns arrays of the requested shapes, the periodic
  planar mesh is built without error and has exactly 16 quads: in this order the
  \<open>(3-1)*(4-1) = 6\<close> structured quads, the seam block of \<open>3-1 = 2\<close> quads, the 4 quads of the
  south pole and the 4 quads of the north pole. In each pole block two corners of every
  quad are one and the same node, the pole.
\<close>

theorem periodic_planar_mesh_3_4:
  assumes per: "periodic cfg" and planar: "volumetric cfg = ''planar''"
      and seam_map: "has_shape (mk [3, 2] [4, 3] [] 0) 3 2"
      and south_map: "has_shape (mk [2, 5] [12, 1] [1] 0) 2 5"
      and north_map: "has_shape (mk [2, 5] [- 5, 1] [1] 13) 2 5"
  shows "\<exists>interior seam south north.
           periodic_planar_mesh mk cfg 3 4 = Inr (((interior @ seam) @ south) @ north) \<and>
           length (((interior @ seam) @ south) @ north) = 16 \<and>
           structured_cells [3 - 1, 4 - 1] 2 None = Inr interior \<and> length interior = (3 - 1) * (4 - 1) \<and>
           structured_cells [3 - 1, 1] 2 (Some (concat (mk [3, 2] [4, 3] [] 0))) = Inr seam \<and>
           length seam = 3 - 1 \<and>
           south = map (\<lambda>j. [concat (mk [2, 5] [12, 1] [1] 0) ! j,
                               concat (mk [2, 5] [12, 1] [1] 0) ! 5,
                               concat (mk [2, 5] [12, 1] [1] 0) ! 5,
                               concat (mk [2, 5] [12, 1] [1] 0) ! (j + 1)]) [0, 1, 2, 3] \<and>
           north = map (\<lambda>j. [concat (mk [2, 5] [- 5, 1] [1] 13) ! 0,
                               concat (mk [2, 5] [- 5, 1] [1] 13) ! (5 + j),
                               concat (mk [2, 5] [- 5, 1] [1] 13) ! (5 + j + 1),
                               concat (mk [2, 5] [- 5, 1] [1] 13) ! 0]) [0, 1, 2, 3]"
proof -
  from seam_map obtain a0 a1 b0 b1 c0 c1 where
    sm: "mk [3, 2] [4, 3] [] 0 = [[a0, a1], [b0, b1], [c0, c1]]" by (rule has_shape_3_2)
  from south_map obtain x0 x1 x2 x3 x4 y0 y1 y2 y3 y4 where
    so: "mk [2, 5] [12, 1] [1] 0 = [[x0, x1, x2, x3, x4], [y0, y1, y2, y3, y4]]" by (rule has_shape_2_5)
  from north_map obtain u0 u1 u2 u3 u4 v0 v1 v2 v3 v4 where
    no: "mk [2, 5] [- 5, 1] [1] 13 = [[u0, u1, u2, u3, u4], [v0, v1, v2, v3, v4]]" by (rule has_shape_2_5)
  have interior: "structured_cells [2, 3] 2 None
      = Inr [[0, 4, 5, 1], [1, 5, 6, 2], [2, 6, 7, 3], [4, 8, 9, 5], [5, 9, 10, 6], [6, 10, 11, 7]]"
    unfolding structured_cells_def elements_3_4 by simp
  have seam: "structured_cells [2, 1] 2 (Some (concat (mk [3, 2] [4, 3] [] 0)))
      = Inr [[a0, b0, b1, a1], [b0, c0, c1, b1]]"
    unfolding structured_cells_def elements_3_2 sm by simp
  have smap: "assign_row (mk [2, 5] [12, 1] [1] 0) 1 = Inr [[x0, x1, x2, x3, x4], [y0, y0, y0, y0, y0]]"
    unfolding assign_row_def so by (simp add: numeral_eq_Suc)
  have south: "structured_cells [1, 4] 2 (Some (concat [[x0, x1, x2, x3, x4], [y0, y0, y0, y0, y0]]))
      = Inr [[x0, y0, y0, x1], [x1, y0, y0, x2], [x2, y0, y0, x3], [x3, y0, y0, x4]]"
    unfolding structured_cells_def elements_2_5 by simp
  have nmap: "assign_row (mk [2, 5] [- 5, 1] [1] 13) 0 = Inr [[u0, u0, u0, u0, u0], [v0, v1, v2, v3, v4]]"
    unfolding assign_row_def no by (simp add: numeral_eq_Suc)
  have north: "structured_cells [1, 4] 2 (Some (concat [[u0, u0, u0, u0, u0], [v0, v1, v2, v3, v4]]))
      = Inr [[u0, v0, v1, u0], [u0, v1, v2, u0], [u0, v2, v3, u0], [u0, v3, v4, u0]]"
    unfolding structured_cells_def elements_2_5 by simp
  have mesh: "periodic_planar_mesh mk cfg 3 4
      = Inr ((([[0, 4, 5, 1], [1, 5, 6, 2], [2, 6, 7, 3], [4, 8, 9, 5], [5, 9, 10, 6], [6, 10, 11, 7]]
              @ [[a0, b0, b1, a1], [b0, c0, c1, b1]])
              @ [[x0, y0, y0, x1], [x1, y0, y0, x2], [x2, y0, y0, x3], [x3, y0, y0, x4]])
              @ [[u0, v0, v1, u0], [u0, v1, v2, u0], [u0, v2, v3, u0], [u0, v3, v4, u0]])"
    using per planar interior seam smap south nmap north
    by (simp add: periodic_planar_mesh_def)
  have sh: "[3 - 1, 4 - 1] = [2, 3 :: nat]" "[3 - 1, 1] = [2, 1 :: nat]" by simp_all
  have g_total: "length ((([[0, 4, 5, 1], [1, 5, 6, 2], [2, 6, 7, 3], [4, 8, 9, 5], [5, 9, 10, 6], [6, 10, 11, 7 :: int]]
              @ [[a0, b0, b1, a1], [b0, c0, c1, b1]])
              @ [[x0, y0, y0, x1], [x1, y0, y0, x2], [x2, y0, y0, x3], [x3, y0, y0, x4]])
              @ [[u0, v0, v1, u0], [u0, v1, v2, u0], [u0, v2, v3, u0], [u0, v3, v4, u0]]) = 16"
    by simp
  have g_interior: "structured_cells [3 - 1, 4 - 1] 2 None
      = Inr [[0, 4, 5, 1], [1, 5, 6, 2], [2, 6, 7, 3], [4, 8, 9, 5], [5, 9, 10, 6], [6, 10, 11, 7]]"
    unfolding sh by (fact interior)
  have g_interior_len: "length [[0, 4, 5, 1], [1, 5, 6, 2], [2, 6, 7, 3], [4, 8, 9, 5], [5, 9, 10, 6], [6, 10, 11, 7 :: int]]
      = (3 - 1) * (4 - 1)" by simp
  have g_seam: "structured_cells [3 - 1, 1] 2 (Some (concat (mk [3, 2] [4, 3] [] 0)))
      = Inr [[a0, b0, b1, a1], [b0, c0, c1, b1]]"
    unfolding sh by (fact seam)
  have g_seam_len: "length [[a0, b0, b1, a1], [b0, c0, c1, b1]] = 3 - 1" by simp
  have g_south: "[[x0, y0, y0, x1], [x1, y0, y0, x2], [x2, y0, y0, x3], [x3, y0, y0, x4]]
      = map (\<lambda>j. [concat (mk [2, 5] [12, 1] [1] 0) ! j,
                               concat (mk [2, 5] [12, 1] [1] 0) ! 5,
                               concat (mk [2, 5] [12, 1] [1] 0) ! 5,
                               concat (mk [2, 5] [12, 1] [1] 0) ! (j + 1)]) [0, 1, 2, 3]"
    unfolding so by simp
  have g_north: "[[u0, v0, v1, u0], [u0, v1, v2, u0], [u0, v2, v3, u0], [u0, v3, v4, u0]]
      = map (\<lambda>j. [concat (mk [2, 5] [- 5, 1] [1] 13) ! 0,
                               concat (mk [2, 5] [- 5, 1] [1] 13) ! (5 + j),
                               concat (mk [2, 5] [- 5, 1] [1] 13) ! (5 + j + 1),
                               concat (mk [2, 5] [- 5, 1] [1] 13) ! 0]) [0, 1, 2, 3]"
    unfolding no by simp
  show ?thesis
    apply (rule exI[of _ "[[0, 4, 5, 1], [1, 5, 6, 2], [2, 6, 7, 3], [4, 8, 9, 5], [5, 9, 10, 6], [6, 10, 11, 7]]"])
    apply (rule exI[of _ "[[a0, b0, b1, a1], [b0, c0, c1, b1]]"])
    apply (rule exI[of _ "[[x0, y0, y0, x1], [x1, y0, y0, x2], [x2, y0, y0, x3], [x3, y0, y0, x4]]"])
    apply (rule exI[of _ "[[u0, v0, v1, u0], [u0, v1, v2, u0], [u0, v2, v3, u0], [u0, v3, v4, u0]]"])
    apply (intro conjI)
           apply (fact mesh)
          apply (fact g_total)
         apply (fact g_interior)
        apply (fact g_interior_len)
       apply (fact g_seam)
      apply (fact g_seam_len)
     apply (fact g_south)
    apply (fact g_north)
    done
qed

theorem periodic_planar_mesh_3_4_witness:
  "periodic \<lparr>periodic = True, volumetric = ''planar'', mapping = ''global''\<rparr> \<and>
   volumetric \<lparr>periodic = True, volumetric = ''planar'', mapping = ''global''\<rparr> = ''planar'' \<and>
   has_shape (strided_nodemap [3, 2] [4, 3] [] 0) 3 2 \<and>
   has_shape (strided_nodemap [2, 5] [12, 1] [1] 0) 2 5 \<and>
   has_shape (strided_nodemap [2, 5] [- 5, 1] [1] 13) 2 5 \<and>
   periodic_planar_mesh strided_nodemap \<lparr>periodic = True, volumetric = ''planar'', mapping = ''global''\<rparr> 3 4
     = Inr [[0, 4, 5, 1], [1, 5, 6, 2], [2, 6, 7, 3], [4, 8, 9, 5], [5, 9, 10, 6], [6, 10, 11, 7],
            [0, 4, 7, 3], [4, 8, 11, 7],
            [0, 12, 12, 1], [1, 12, 12, 2], [2, 12, 12, 3], [3, 12, 12, 0],
            [13, 8, 9, 13], [13, 9, 10, 13], [13, 10, 11, 13], [13, 11, 8, 13]]"
proof -
  let ?cfg = "\<lparr>periodic = True, volumetric = ''planar'', mapping = ''global''\<rparr>"
  have m1: "strided_nodemap [3, 2] [4, 3] [] 0 = [[0, 3], [4, 7], [8, 11]]"
    by (simp add: strided_nodemap_def upt_rec)
  have m2: "strided_nodemap [2, 5] [12, 1] [1] 0 = [[0, 1, 2, 3, 0], [12, 13, 14, 15, 12]]"
    by (simp add: strided_nodemap_def upt_rec)
  have m3: "strided_nodemap [2, 5] [- 5, 1] [1] 13 = [[13, 14, 15, 16, 13], [8, 9, 10, 11, 8]]"
    by (simp add: strided_nodemap_def upt_rec)
  have h1: "periodic ?cfg" and h2: "volumetric ?cfg = ''planar''" by simp_all
  have h3: "has_shape (strided_nodemap [3, 2] [4, 3] [] 0) 3 2"
    and h4: "has_shape (strided_nodemap [2, 5] [12, 1] [1] 0) 2 5"
    and h5: "has_shape (strided_nodemap [2, 5] [- 5, 1] [1] 13) 2 5"
    unfolding m1 m2 m3 has_shape_def by simp_all
  from periodic_planar_mesh_3_4[OF h1 h2 h3 h4 h5]
  obtain interior seam south north where
    mesh: "periodic_planar_mesh strided_nodemap ?cfg 3 4 = Inr (((interior @ seam) @ south) @ north)"
    and i: "structured_cells [3 - 1, 4 - 1] 2 None = Inr interior"
    and s: "structured_cells [3 - 1, 1] 2 (Some (concat (strided_nodemap [3, 2] [4, 3] [] 0))) = Inr seam"
    and so: "south = map (\<lambda>j. [concat (strided_nodemap [2, 5] [12, 1] [1] 0) ! j,
                               concat (strided_nodemap [2, 5] [12, 1] [1] 0) ! 5,
                               concat (strided_nodemap [2, 5] [12, 1] [1] 0) ! 5,
                               concat (strided_nodemap [2, 5] [12, 1] [1] 0) ! (j + 1)]) [0, 1, 2, 3]"
    and no: "north = map (\<lambda>j. [concat (strided_nodemap [2, 5] [- 5, 1] [1] 13) ! 0,
                               concat (strided_nodemap [2, 5] [- 5, 1] [1] 13) ! (5 + j),
                               concat (strided_nodemap [2, 5] [- 5, 1] [1] 13) ! (5 + j + 1),
                               concat (strided_nodemap [2, 5] [- 5, 1] [1] 13) ! 0]) [0, 1, 2, 3]"
    by (elim exE conjE)
  have "[3 - 1, 4 - 1] = [2, 3 :: nat]" "[3 - 1, 1] = [2, 1 :: nat]" by simp_all
  note sh = this
  from i have i': "interior = [[0, 4, 5, 1], [1, 5, 6, 2], [2, 6, 7, 3], [4, 8, 9, 5], [5, 9, 10, 6], [6, 10, 11, 7]]"
    unfolding sh structured_cells_def elements_3_4 by simp
  from s have s': "seam = [[0, 4, 7, 3], [4, 8, 11, 7]]"
    unfolding sh structured_cells_def elements_3_2 m1 by simp
  from so have so': "south = [[0, 12, 12, 1], [1, 12, 12, 2], [2, 12, 12, 3], [3, 12, 12, 0]]"
    unfolding m2 by simp
  from no have no': "north = [[13, 8, 9, 13], [13, 9, 10, 13], [13, 10, 11, 13], [13, 11, 8, 13]]"
    unfolding m3 by simp
  from mesh h1 h2 h3 h4 h5 show ?thesis
    unfolding i' s' so' no' by simp
qed

subsection \<open>Node counts of periodic meshes\<close>

lemma unstagger_all_none:
  "\<forall>(i, dn)\<in>set ds. \<not> endswith_stag dn \<Longrightarrow> unstagger_all u ds data = data"
  by (induction ds) auto

lemma unstagger_all_unstaggered:
  assumes "\<forall>dn\<in>set dims. \<not> endswith_stag dn"
  shows "unstagger_all u (enumerate n dims) data = data"
  using assms by (intro unstagger_all_none) (auto simp: in_set_enumerate_eq)

lemma length_concat_uniform:
  "\<forall>xs\<in>set xss. length xs = m \<Longrightarrow> length (concat xss) = length xss * m"
  by (induction xss) simp_all

lemma chunks_concat:
  assumes "\<forall>xs\<in>set xss. length xs = m"
  shows "map (\<lambda>r. take m (drop (r * m) (concat xss))) [0..<length xss] = xss"
  using assms
proof (induction xss)
  case Nil
  then show ?case by simp
next
  case (Cons xs xss)
  then have xs: "length xs = m" and rest: "\<forall>ys\<in>set xss. length ys = m" by simp_all
  have "map (\<lambda>r. take m (drop (r * m) (concat (xs # xss)))) [0..<length (xs # xss)]
      = take m (xs @ concat xss) # map (\<lambda>r. take m (drop (Suc r * m) (xs @ concat xss))) [0..<length xss]"
    by (simp add: upt_conv_Cons map_Suc_upt[symmetric] del: upt_Suc)
  also have "take m (xs @ concat xss) = xs" using xs by simp
  also have "map (\<lambda>r. take m (drop (Suc r * m) (xs @ concat xss))) [0..<length xss]
      = map (\<lambda>r. take m (drop (r * m) (concat xss))) [0..<length xss]"
    using xs by (simp add: add.commute)
  also have "\<dots> = xss" using Cons.IH[OF rest] .
  finally show ?case .
qed

lemma concat_layers: "concat (map concat d) = concat (concat d)"
  by (induction d) simp_all

lemma reshape_rows_layers:
  assumes "length d = nv" "0 < nv" "\<forall>l\<in>set d. length (concat l) = m"
  shows "reshape_rows nv (A3 d) = Inr (map concat d)"
proof -
  have u: "\<forall>xs\<in>set (map concat d). length xs = m" using assms(3) by simp
  have len: "length (concat (concat d)) = nv * m"
    using length_concat_uniform[OF u] assms(1) by (simp add: concat_layers)
  have "map (\<lambda>r. take m (drop (r * m) (concat (map concat d)))) [0..<length (map concat d)] = map concat d"
    by (rule chunks_concat[OF u])
  then have "map (\<lambda>r. take m (drop (r * m) (concat (concat d)))) [0..<nv] = map concat d"
    using assms(1) by (simp add: concat_layers)
  with len assms(2) show ?thesis by (simp add: reshape_rows_def Let_def)
qed


lemma variable_at_planar:
  assumes per: "periodic cfg"
      and dims: "length dims = 2" "\<forall>dn\<in>set dims. \<not> endswith_stag dn"
      and ne: "d \<noteq> []"
      and south: "(if vname \<in> {''XLONG'', ''XLAT''} then angle_mean_deg (A1 (d ! 0)) else A0 (mean (d ! 0))) = A0 s"
      and north: "(if vname \<in> {''XLONG'', ''XLAT''} then angle_mean_deg (A1 (last d)) else A0 (mean (last d))) = A0 n"
  shows "variable_at unstagger mean angle_mean_deg cfg nv vname dims (A2 d) False True
           = Inr (A1 (concat d @ [s, n]))"
proof -
  have u: "unstagger_all unstagger (enumerate 0 dims) (A2 d) = A2 d"
    by (rule unstagger_all_unstaggered[OF dims(2)])
  have p: "polar_values mean angle_mean_deg vname (A2 d) = Inr (A0 s, A0 n)"
    using ne south north by (auto simp: polar_values_def split: if_splits)
  show ?thesis
    using per dims(1) by (simp add: variable_at_def u p)
qed

lemma variable_at_volumetric:
  assumes per: "periodic cfg" and vol: "volumetric cfg \<noteq> ''planar''"
      and field: "vname \<notin> {''XLONG'', ''XLAT''}"
      and dims: "length dims = 3"
      and unst: "unstagger_all unstagger (enumerate 0 dims) data = A3 d"
      and layers: "length d = nv" "0 < nv"
      and rows: "\<forall>l\<in>set d. length l = n0" "0 < n0"
      and cols: "\<forall>l\<in>set d. \<forall>r\<in>set l. length r = n1"
  shows "variable_at unstagger mean angle_mean_deg cfg nv vname dims data False True
           = Inr (A2 (map (\<lambda>l. concat l @ [mean (l ! 0), mean (last l)]) d))"
proof -
  have nonempty: "\<not> list_ex (\<lambda>l. l = []) d" using rows by (auto simp: list_ex_iff)
  have p: "polar_values mean angle_mean_deg vname (A3 d)
      = Inr (A1 (map (\<lambda>l. mean (l ! 0)) d), A1 (map (\<lambda>l. mean (last l)) d))"
    using field nonempty by (simp add: polar_values_def comp_def)
  have st: "stack_T (A1 (map (\<lambda>l. mean (l ! 0)) d)) (A1 (map (\<lambda>l. mean (last l)) d))
      = Inr (A2 (map (\<lambda>l. [mean (l ! 0), mean (last l)]) d))"
    by (simp add: zip_map_map zip_same_conv_map)
  have "\<forall>l\<in>set d. length (concat l) = n0 * n1"
  proof
    fix l assume l: "l \<in> set d"
    with cols have "\<forall>r\<in>set l. length r = n1" by simp
    from length_concat_uniform[OF this] rows(1) l show "length (concat l) = n0 * n1" by simp
  qed
  from reshape_rows_layers[OF layers this]
  have rr: "reshape_rows nv (A3 d) = Inr (map concat d)" .
  have ap: "append_rows (map concat d) (A2 (map (\<lambda>l. [mean (l ! 0), mean (last l)]) d))
      = Inr (map (\<lambda>l. concat l @ [mean (l ! 0), mean (last l)]) d)"
    by (simp add: zip_map_map zip_same_conv_map)
  show ?thesis
    using per vol dims
    by (simp add: variable_at_def unst p st rr ap del: stack_T.simps append_rows.simps)
qed

lemma size_with_poles:
  assumes "\<forall>l\<in>set d. length l = n0" "\<forall>l\<in>set d. \<forall>r\<in>set l. length r = n1"
  shows "np_size (A2 (map (\<lambda>l. concat l @ [s l, n l]) d)) = length d * n0 * n1 + 2 * length d"
proof -
  have "\<forall>xs\<in>set (map (\<lambda>l. concat l @ [s l, n l]) d). length xs = n0 * n1 + 2"
  proof
    fix xs assume "xs \<in> set (map (\<lambda>l. concat l @ [s l, n l]) d)"
    then obtain l where l: "l \<in> set d" and xs: "xs = concat l @ [s l, n l]" by auto
    from assms(2) l have "\<forall>r\<in>set l. length r = n1" by simp
    from length_concat_uniform[OF this] assms(1) l xs show "length xs = n0 * n1 + 2" by simp
  qed
  from length_concat_uniform[OF this] show ?thesis by (simp add: algebra_simps)
qed


lemma not_stag_horizontal:
  "\<forall>dn\<in>set [''south_north'', ''west_east'']. \<not> endswith_stag dn"
  by (simp add: endswith_stag_def)

text \<open>
  Claim C5: for a periodic dataset read with the global mapping, whose horizontal
  coordinates have \<open>nlat\<close> rows of \<open>nlon\<close> entries, the coordinate array is the regular block
  followed by the two polar values (with the local mapping the reader switches
  periodicity off). In the planar case the node count is
  \<open>nlat * nlon + 2\<close>. In the volumetric case it is \<open>nv * nlat * nlon + 2 * nv\<close>, and a
  volumetric variable is laid out layer by layer, each layer being its regular block
  followed by its own two polar values.
\<close>

theorem periodic_node_count:
  assumes per: "periodic cfg" and glob: "mapping cfg \<noteq> ''local''"
      and xlong: "variables ds ''XLONG'' = ([''south_north'', ''west_east''], A2 lon)"
      and xlat: "variables ds ''XLAT'' = ([''south_north'', ''west_east''], A2 lat)"
      and lon_shape: "length lon = nlat" "\<forall>r\<in>set lon. length r = nlon"
      and lat_shape: "length lat = nlat" "\<forall>r\<in>set lat. length r = nlon"
      and lon_poles: "angle_mean_deg (A1 (lon ! 0)) = A0 lon_s" "angle_mean_deg (A1 (last lon)) = A0 lon_n"
      and lat_poles: "angle_mean_deg (A1 (lat ! 0)) = A0 lat_s" "angle_mean_deg (A1 (last lat)) = A0 lat_n"
      and height: "variables ds zname = (zdims, zdata)" "zname \<notin> {''XLONG'', ''XLAT''}" "length zdims = 3"
      and unstaggered: "unstagger_all unstagger (enumerate 0 zdims) zdata = A3 d"
      and layers: "length d = nvertical ds" "\<forall>l\<in>set d. length l = nlat"
                  "\<forall>l\<in>set d. \<forall>r\<in>set l. length r = nlon"
      and pos: "0 < nlat" "0 < nvertical ds"
  shows "variable_at unstagger mean angle_mean_deg cfg (nvertical ds) ''XLONG''
             (fst (variables ds ''XLONG'')) (snd (variables ds ''XLONG'')) False True
           = Inr (A1 (concat lon @ [lon_s, lon_n])) \<and>
         (volumetric cfg = ''planar'' \<longrightarrow>
            patch_at_nnodes unstagger mean angle_mean_deg cfg ds = Inr (nlat * nlon + 2)) \<and>
         (volumetric cfg \<noteq> ''planar'' \<longrightarrow>
            patch_at_nnodes unstagger mean angle_mean_deg cfg ds
              = Inr (nvertical ds * nlat * nlon + 2 * nvertical ds) \<and>
            variable_at unstagger mean angle_mean_deg cfg (nvertical ds) zname
                (fst (variables ds zname)) (snd (variables ds zname)) False True
              = Inr (A2 (map (\<lambda>l. concat l @ [mean (l ! 0), mean (last l)]) d)) \<and>
            np_size (A2 (map (\<lambda>l. concat l @ [mean (l ! 0), mean (last l)]) d))
              = nvertical ds * nlat * nlon + 2 * nvertical ds)"
proof -
  from lon_shape pos have lon_ne: "lon \<noteq> []" by auto
  from lat_shape pos have lat_ne: "lat \<noteq> []" by auto
  have x: "variable_at unstagger mean angle_mean_deg cfg (nvertical ds) ''XLONG''
             [''south_north'', ''west_east''] (A2 lon) False True
           = Inr (A1 (concat lon @ [lon_s, lon_n]))"
    using lon_poles by (intro variable_at_planar[OF per _ not_stag_horizontal lon_ne]) simp_all
  have y: "variable_at unstagger mean angle_mean_deg cfg (nvertical ds) ''XLAT''
             [''south_north'', ''west_east''] (A2 lat) False True
           = Inr (A1 (concat lat @ [lat_s, lat_n]))"
    using lat_poles by (intro variable_at_planar[OF per _ not_stag_horizontal lat_ne]) simp_all
  have size: "np_size (A1 (concat lon @ [lon_s, lon_n])) = nlat * nlon + 2"
    using length_concat_uniform[OF lon_shape(2)] lon_shape(1) by simp
  have planar: "patch_at_nnodes unstagger mean angle_mean_deg cfg ds = Inr (nlat * nlon + 2)"
    if "volumetric cfg = ''planar''"
    using that glob size
    by (simp add: patch_at_nnodes_def xlong xlat x y del: np_size.simps)
  have vol: "patch_at_nnodes unstagger mean angle_mean_deg cfg ds
              = Inr (nvertical ds * nlat * nlon + 2 * nvertical ds)"
    if "volumetric cfg \<noteq> ''planar''"
    using that glob size
    by (simp add: patch_at_nnodes_def xlong xlat x y algebra_simps del: np_size.simps)
  have z: "variable_at unstagger mean angle_mean_deg cfg (nvertical ds) zname zdims zdata False True
              = Inr (A2 (map (\<lambda>l. concat l @ [mean (l ! 0), mean (last l)]) d))"
    if "volumetric cfg \<noteq> ''planar''"
    by (rule variable_at_volumetric[OF per that height(2,3) unstaggered layers(1) pos(2) layers(2) pos(1) layers(3)])
  have zsize: "np_size (A2 (map (\<lambda>l. concat l @ [mean (l ! 0), mean (last l)]) d))
              = nvertical ds * nlat * nlon + 2 * nvertical ds"
    using size_with_poles[OF layers(2,3), of "\<lambda>l. mean (l ! 0)" "\<lambda>l. mean (last l)"] layers(1)
    by simp
  show ?thesis
    using x planar vol z zsize by (simp add: xlong height(1))
qed


theorem periodic_node_count_witness:
  "patch_at_nnodes drop_first_level sum_list total
     \<lparr>periodic = True, volumetric = ''planar'', mapping = ''global''\<rparr> example_dataset
     = Inr (2 * 3 + 2) \<and>
   patch_at_nnodes drop_first_level sum_list total
     \<lparr>periodic = True, volumetric = ''volumetric'', mapping = ''global''\<rparr> example_dataset
     = Inr (2 * 2 * 3 + 2 * 2) \<and>
   variable_at drop_first_level sum_list total
     \<lparr>periodic = True, volumetric = ''volumetric'', mapping = ''global''\<rparr> 2 ''XLONG''
     [''south_north'', ''west_east''] (A2 [[1, 2, 3], [4, 5, 6]]) False True
     = Inr (A1 [1, 2, 3, 4, 5, 6, 6, 15]) \<and>
   variable_at drop_first_level sum_list total
     \<lparr>periodic = True, volumetric = ''volumetric'', mapping = ''global''\<rparr> 2 ''PH''
     [''bottom_top_stag'', ''south_north'', ''west_east'']
     (A3 [[[0, 0, 0], [0, 0, 0]], [[1, 2, 3], [4, 5, 6]], [[10, 20, 30], [40, 50, 60]]]) False True
     = Inr (A2 [[1, 2, 3, 4, 5, 6, 6, 15], [10, 20, 30, 40, 50, 60, 60, 150]])"
proof -
  let ?P = "\<lparr>periodic = True, volumetric = ''planar'', mapping = ''global''\<rparr>"
  let ?V = "\<lparr>periodic = True, volumetric = ''volumetric'', mapping = ''global''\<rparr>"
  let ?lon = "[[1, 2, 3], [4, 5, 6 :: int]]"
  let ?lat = "[[7, 8, 9], [10, 11, 12 :: int]]"
  let ?zdims = "[''bottom_top_stag'', ''south_north'', ''west_east'']"
  let ?zdata = "A3 [[[0, 0, 0], [0, 0, 0]], [[1, 2, 3], [4, 5, 6]], [[10, 20, 30], [40, 50, 60 :: int]]]"
  let ?d = "[[[1, 2, 3], [4, 5, 6]], [[10, 20, 30], [40, 50, 60 :: int]]]"
  have s1: "endswith_stag ''bottom_top_stag''" by (simp add: endswith_stag_def)
  have s2: "\<not> endswith_stag ''south_north''" by (simp add: endswith_stag_def)
  have s3: "\<not> endswith_stag ''west_east''" by (simp add: endswith_stag_def)
  have u: "unstagger_all drop_first_level (enumerate 0 ?zdims) ?zdata = A3 ?d"
    by (simp add: s1 s2 s3 drop_first_level_def)
  have plan: "variable_at drop_first_level sum_list total ?P (nvertical example_dataset) ''XLONG''
             (fst (variables example_dataset ''XLONG'')) (snd (variables example_dataset ''XLONG'')) False True
           = Inr (A1 (concat ?lon @ [6, 15])) \<and>
         (volumetric ?P = ''planar'' \<longrightarrow>
            patch_at_nnodes drop_first_level sum_list total ?P example_dataset = Inr (2 * 3 + 2)) \<and>
         (volumetric ?P \<noteq> ''planar'' \<longrightarrow>
            patch_at_nnodes drop_first_level sum_list total ?P example_dataset
              = Inr (nvertical example_dataset * 2 * 3 + 2 * nvertical example_dataset) \<and>
            variable_at drop_first_level sum_list total ?P (nvertical example_dataset) ''PH''
                (fst (variables example_dataset ''PH'')) (snd (variables example_dataset ''PH'')) False True
              = Inr (A2 (map (\<lambda>l. concat l @ [sum_list (l ! 0), sum_list (last l)]) ?d)) \<and>
            np_size (A2 (map (\<lambda>l. concat l @ [sum_list (l ! 0), sum_list (last l)]) ?d))
              = nvertical example_dataset * 2 * 3 + 2 * nvertical example_dataset)"
    by (rule periodic_node_count[where lat = ?lat and lat_s = 24 and lat_n = 33 and zdims = ?zdims
          and zdata = ?zdata])
      (simp_all add: example_dataset_def total_def s1 s2 s3 drop_first_level_def)
  have vol: "variable_at drop_first_level sum_list total ?V (nvertical example_dataset) ''XLONG''
             (fst (variables example_dataset ''XLONG'')) (snd (variables example_dataset ''XLONG'')) False True
           = Inr (A1 (concat ?lon @ [6, 15])) \<and>
         (volumetric ?V = ''planar'' \<longrightarrow>
            patch_at_nnodes drop_first_level sum_list total ?V example_dataset = Inr (2 * 3 + 2)) \<and>
         (volumetric ?V \<noteq> ''planar'' \<longrightarrow>
            patch_at_nnodes drop_first_level sum_list total ?V example_dataset
              = Inr (nvertical example_dataset * 2 * 3 + 2 * nvertical example_dataset) \<and>
            variable_at drop_first_level sum_list total ?V (nvertical example_dataset) ''PH''
                (fst (variables example_dataset ''PH'')) (snd (variables example_dataset ''PH'')) False True
              = Inr (A2 (map (\<lambda>l. concat l @ [sum_list (l ! 0), sum_list (last l)]) ?d)) \<and>
            np_size (A2 (map (\<lambda>l. concat l @ [sum_list (l ! 0), sum_list (last l)]) ?d))
              = nvertical example_dataset * 2 * 3 + 2 * nvertical example_dataset)"
    by (rule periodic_node_count[where lat = ?lat and lat_s = 24 and lat_n = 33 and zdims = ?zdims
          and zdata = ?zdata])
      (simp_all add: example_dataset_def total_def s1 s2 s3 drop_first_level_def)
  from plan vol show ?thesis
    by (simp add: example_dataset_def)
qed

subsection \<open>The skip rule of \<open>write_geometry\<close>\<close>

lemma patch_skips_settled:
  assumes "last_written node = Some v" "lid \<le> v" "patchid node = Some p"
  shows "write_geometry_patch knots ev upd lid obj node w = Inr (node, w, Skipped)"
  using assms by (simp add: write_geometry_patch_def)

lemma patch_written_settled:
  assumes "write_geometry_patch knots ev upd t obj node w = Inr (node', w', Written)"
  shows "last_written node' = Some t \<and> (\<exists>p. patchid node' = Some p)"
  using assms
  by (auto simp: write_geometry_patch_def Let_def
      split: option.splits if_splits sum.splits prod.splits)

lemma iteration_level:
  assumes "write_geometry_iteration read node_of obj_of knots ev upd b t pid store w = Inr r"
  shows "\<exists>level. basis_level t b = Inr level"
  using assms by (cases "basis_level t b") (simp_all add: write_geometry_iteration_def)

lemma patch_settles:
  assumes "write_geometry_patch knots ev upd t obj node w = Inr (node', w', em)"
  shows "settled t node'" and "settled s node \<Longrightarrow> settled s node'"
  using assms
  by (auto simp: write_geometry_patch_def Let_def settled_def
      split: option.splits if_splits sum.splits prod.splits)

lemma patch_skips:
  assumes "settled t node"
  shows "write_geometry_patch knots ev upd t obj node w = Inr (node, w, Skipped)"
  using assms by (auto simp: write_geometry_patch_def settled_def split: option.splits)

lemma iteration_settles:
  assumes "write_geometry_iteration read node_of obj_of knots ev upd b t pid store w
             = Inr (store', w', em)"
      and "basis_level t b = Inr level"
  shows "settled t (store' (node_of (read level pid)))"
    and "settled s (store k) \<Longrightarrow> settled s (store' k)"
proof -
  let ?k = "node_of (read level pid)"
  from assms obtain node' where
    body: "write_geometry_patch knots ev upd t (obj_of ?k) (store ?k) w = Inr (node', w', em)"
    and store': "store' = store(?k := node')"
    by (auto simp: write_geometry_iteration_def Let_def split: sum.splits)
  from patch_settles(1)[OF body] store' show "settled t (store' ?k)" by simp
  show "settled s (store' k)" if "settled s (store k)"
    using that patch_settles(2)[OF body, of s] store' by (cases "k = ?k") simp_all
qed

lemma loop_settles:
  assumes "write_geometry_loop read node_of obj_of knots ev upd b t pids store w
             = Inr (store', w', ems)"
      and "basis_level t b = Inr level"
  shows "(\<forall>pid\<in>set pids. settled t (store' (node_of (read level pid)))) \<and>
         (\<forall>k. settled t (store k) \<longrightarrow> settled t (store' k))"
  using assms
proof (induction pids arbitrary: store w store' w' ems)
  case Nil
  then show ?case by simp
next
  case (Cons pid pids)
  from Cons.prems(1) obtain store1 w1 em ems1 where
    it: "write_geometry_iteration read node_of obj_of knots ev upd b t pid store w = Inr (store1, w1, em)"
    and rest: "write_geometry_loop read node_of obj_of knots ev upd b t pids store1 w1 = Inr (store', w', ems1)"
    by (auto split: sum.splits)
  from Cons.IH[OF rest Cons.prems(2)]
  have ih: "\<forall>pid\<in>set pids. settled t (store' (node_of (read level pid)))"
    "\<forall>k. settled t (store1 k) \<longrightarrow> settled t (store' k)" by simp_all
  from iteration_settles[OF it Cons.prems(2)] ih show ?case by auto
qed

lemma loop_skips:
  assumes "basis_level t b = Inr level"
      and "\<forall>pid\<in>set pids. settled t (store (node_of (read level pid)))"
  shows "write_geometry_loop read node_of obj_of knots ev upd b t pids store w
           = Inr (store, w, replicate (length pids) Skipped)"
  using assms(2)
proof (induction pids)
  case Nil
  then show ?case by simp
next
  case (Cons pid pids)
  then have "settled t (store (node_of (read level pid)))" by simp
  from patch_skips[OF this, of knots ev upd "obj_of (node_of (read level pid))" w]
  have "write_geometry_iteration read node_of obj_of knots ev upd b t pid store w = Inr (store, w, Skipped)"
    using assms(1) by (simp add: write_geometry_iteration_def Let_def)
  with Cons show ?case by simp
qed

lemma settled_earlier: "settled t node \<Longrightarrow> t' \<le> t \<Longrightarrow> settled t' node"
  by (auto simp: settled_def split: option.splits)

text \<open>
  The whole call: when every patch of a later call at \<open>t' \<le> t\<close> belongs to a node that the
  call at \<open>t\<close> went through, and the basis has geometry at \<open>t'\<close>, the later call skips every
  patch and leaves all nodes and the writer as they were.
\<close>

lemma write_geometry_repeat:
  assumes first: "write_geometry npatches read node_of obj_of knots ev upd b t store w
                    = Inr (store', w', ems)"
      and level: "basis_level t b = Inr level"
      and earlier: "t' \<le> t"
      and available: "basis_level t' b = Inr level'"
      and seen: "\<forall>pid'<npatches level'. \<exists>pid<npatches level.
                   node_of (read level' pid') = node_of (read level pid)"
  shows "write_geometry npatches read node_of obj_of knots ev upd b t' store' w2
           = Inr (store', w2, replicate (npatches level') Skipped)"
proof -
  from first level have
    "write_geometry_loop read node_of obj_of knots ev upd b t [0..<npatches level] store w
       = Inr (store', w', ems)"
    by (simp add: write_geometry_def)
  from loop_settles[OF this level]
  have all_settled: "\<forall>pid<npatches level. settled t (store' (node_of (read level pid)))" by simp
  have "\<forall>pid'\<in>set [0..<npatches level']. settled t' (store' (node_of (read level' pid')))"
  proof
    fix pid' assume "pid' \<in> set [0..<npatches level']"
    then have "pid' < npatches level'" by simp
    with seen obtain pid where "pid < npatches level"
      "node_of (read level' pid') = node_of (read level pid)" by blast
    with all_settled have "settled t (store' (node_of (read level' pid')))" by simp
    then show "settled t' (store' (node_of (read level' pid')))" using earlier by (rule settled_earlier)
  qed
  from loop_skips[where read = read and node_of = node_of and store = store', OF available this]
    available show ?thesis
    by (simp add: write_geometry_def)
qed

text \<open>
  Claim C3, amended: once the geometry of a catalogue node has been written at timestep
  \<open>t\<close>, a further request for the same node at a timestep \<open>t' \<le> t\<close> at which the basis has
  geometry (an update at or before \<open>t'\<close>) is skipped: nothing is passed to the writer (its
  state \<open>w2\<close> comes back as it went in) and every node, the requested one with its
  last-written timestep, patch ID and tesselation schedule included, is left unchanged.
\<close>

theorem skip_invariant:
  assumes first: "write_geometry_iteration read node_of obj_of knots ev upd b t pid store w
                    = Inr (store', w', Written)"
      and level: "basis_level t b = Inr level"
      and earlier: "t' \<le> t"
      and available: "basis_level t' b = Inr level'"
      and same_node: "node_of (read level' pid') = node_of (read level pid)"
  shows "write_geometry_iteration read node_of obj_of knots ev upd b t' pid' store' w2
           = Inr (store', w2, Skipped)"
proof -
  let ?k = "node_of (read level pid)"
  from first level obtain node' where
    body: "write_geometry_patch knots ev upd t (obj_of ?k) (store ?k) w = Inr (node', w', Written)"
    and store': "store' = store(?k := node')"
    by (auto simp: write_geometry_iteration_def Let_def split: sum.splits)
  from patch_written_settled[OF body] obtain p where
    "last_written node' = Some t" "patchid node' = Some p" by blast
  with store' have "last_written (store' ?k) = Some t" "patchid (store' ?k) = Some p" by simp_all
  from patch_skips_settled[OF this(1) earlier this(2)]
  have "write_geometry_patch knots ev upd t' (obj_of ?k) (store' ?k) w2 = Inr (store' ?k, w2, Skipped)" .
  with available same_node show ?thesis
    by (simp add: write_geometry_iteration_def)
qed

theorem skip_invariant_witness:
  "write_geometry_iteration stored_patch own_node canonical unit_square_knots identity_patch
      counting_writer two_updates 2 0 fresh_nodes 0
     = Inr (fresh_nodes(0 := written_node), 1, Written) \<and>
   basis_level 2 two_updates = Inr 2 \<and> (1 :: int) \<le> 2 \<and> basis_level 1 two_updates = Inr 0 \<and>
   own_node (stored_patch 0 0) = own_node (stored_patch 2 0) \<and>
   write_geometry_iteration stored_patch own_node canonical unit_square_knots identity_patch
      counting_writer two_updates 1 0 (fresh_nodes(0 := written_node)) 1
     = Inr (fresh_nodes(0 := written_node), 1, Skipped)"
proof -
  have first: "write_geometry_iteration stored_patch own_node canonical unit_square_knots identity_patch
      counting_writer two_updates 2 0 fresh_nodes 0
     = Inr (fresh_nodes(0 := written_node), 1, Written)"
    by (simp add: write_geometry_iteration_def write_geometry_patch_def basis_level_def
        two_updates_def stored_patch_def own_node_def canonical_def unit_square_knots_def counting_writer_def
        fresh_nodes_def written_node_def elements_def cell_origins_def grid_shape_def)
  have level: "basis_level 2 two_updates = Inr 2" by (simp add: basis_level_def two_updates_def)
  have earlier: "(1 :: int) \<le> 2" by simp
  have available: "basis_level 1 two_updates = Inr 0" by (simp add: basis_level_def two_updates_def)
  have same_node: "own_node (stored_patch 0 0) = own_node (stored_patch 2 0)" by (simp add: own_node_def stored_patch_def)
  from skip_invariant[OF first level earlier available same_node, of 1]
    first level earlier available same_node
  show ?thesis by simp
qed

text \<open>
  Claim C3, as stated, fails: the basis of \<open>late_basis\<close> has its first geometry at timestep
  2. Its patch is written at \<open>t = 2\<close>; the request at \<open>t' = 1 \<le> t\<close> does not return a skip but
  raises, because the reader finds no geometry for the basis at or before timestep 1.
\<close>

theorem skip_invariant_counterexample:
  "write_geometry one_patch stored_patch own_node canonical unit_square_knots identity_patch
      counting_writer late_basis 2 fresh_nodes 0
     = Inr (fresh_nodes(0 := written_node), 1, [Written]) \<and>
   (1 :: int) \<le> 2 \<and>
   write_geometry one_patch stored_patch own_node canonical unit_square_knots identity_patch
      counting_writer late_basis 1 (fresh_nodes(0 := written_node)) 1
     = Inl (NameError ''index'') \<and>
   write_geometry_iteration stored_patch own_node canonical unit_square_knots identity_patch
      counting_writer late_basis 1 0 (fresh_nodes(0 := written_node)) 1
     = Inl (NameError ''index'')"
  by (simp add: write_geometry_def write_geometry_iteration_def write_geometry_patch_def
      basis_level_def late_basis_def one_patch_def stored_patch_def own_node_def canonical_def
      unit_square_knots_def counting_writer_def fresh_nodes_def written_node_def
      elements_def cell_origins_def grid_shape_def)

subsection \<open>Cell-valued fields\<close>



































subsection \<open>Ordering of writer calls\<close>

text \<open>
  A run of calls on the VTK writer from a fresh writer, used as the example below: a step is
  opened, geometry is opened and one patch is written.
\<close>

lemma nan_filter_one: "VTKWriter_nan_filter ''ascii'' [[Num 1]] = ([[Num 1]], [])"
  by (simp add: VTKWriter_nan_filter_def where_isnan_def isnan_def)

lemma update_field_open:
  "VTKWriter_update_field keep_ncomps ''ascii'' geometry_open_writer ''p'' False True 0 [[Num 1]]
     = Inr field_stored_writer"
  by (simp add: VTKWriter_update_field_def keep_ncomps_def nan_filter_one geometry_open_writer_def
      field_stored_writer_def)

lemma step_enter_fresh:
  "step_enter (VTKWriter_enter :: (nat, nat) vtk_writer)
     = Inr \<lparr>stepid = 0, step_finalized = False, geometry_finalized = False,
            geometry = GeometryManager_init, topologies = Map.empty, vtk_fields = Map.empty\<rparr>"
  by (simp add: step_enter_def VTKWriter_enter_def)

lemma update_geometry_fresh:
  "VTKWriter_update_geometry \<lparr>stepid = 0, step_finalized = False, geometry_finalized = False,
            geometry = GeometryManager_init, topologies = Map.empty, vtk_fields = Map.empty\<rparr> (0 :: nat) (5 :: nat)
     = Inr geometry_open_writer"
  by (simp add: VTKWriter_update_geometry_def Writer_update_geometry_def GeometryManager_update_def
        GeometryManager_init_def geometry_open_writer_def)

lemma open_prefix:
  "run keep_ncomps ''ascii'' (VTKWriter_enter :: (nat, nat) vtk_writer)
     [StepEnter, GeometryEnter, UpdateGeometry 0 5] = Inr geometry_open_writer"
  by (simp add: step_enter_fresh geometry_enter_def update_geometry_fresh)

lemma run_append:
  "run E M w (cs @ ds) = (case run E M w cs of Inl e \<Rightarrow> Inl e | Inr w' \<Rightarrow> run E M w' ds)"
  by (induction cs arbitrary: w) (auto split: sum.splits)

lemma perform_keeps_geometry_open:
  "\<not> geometry_finalized w \<Longrightarrow> c \<noteq> GeometryExit \<Longrightarrow> perform E M w c = Inr w' \<Longrightarrow> \<not> geometry_finalized w'"
  by (cases c)
    (auto simp: step_enter_def step_exit_def geometry_enter_def field_enter_def
      VTKWriter_update_geometry_def VTKWriter_update_field_def
      Writer_update_geometry_def Let_def split: sum.splits if_splits prod.splits)

lemma perform_keeps_step_open:
  "\<not> step_finalized w \<Longrightarrow> c \<noteq> StepExit \<Longrightarrow> perform E M w c = Inr w' \<Longrightarrow> \<not> step_finalized w'"
  by (cases c)
    (auto simp: step_enter_def geometry_enter_def geometry_exit_def field_enter_def
      VTKWriter_update_geometry_def VTKWriter_update_field_def
      Writer_update_geometry_def Let_def split: sum.splits if_splits prod.splits)

lemma geometry_stays_open:
  "\<not> geometry_finalized w \<Longrightarrow> GeometryExit \<notin> set cs \<Longrightarrow> run E M w cs = Inr w' \<Longrightarrow> \<not> geometry_finalized w'"
proof (induction cs arbitrary: w)
  case Nil
  then show ?case by simp
next
  case (Cons c cs)
  from Cons.prems(3) obtain w1 where w1: "perform E M w c = Inr w1" and r: "run E M w1 cs = Inr w'"
    by (auto split: sum.splits)
  from Cons.prems(2) have "c \<noteq> GeometryExit" and "GeometryExit \<notin> set cs" by auto
  with perform_keeps_geometry_open[OF Cons.prems(1) _ w1] Cons.IH[of w1] r show ?case by blast
qed

lemma step_stays_open:
  "\<not> step_finalized w \<Longrightarrow> StepExit \<notin> set cs \<Longrightarrow> run E M w cs = Inr w' \<Longrightarrow> \<not> step_finalized w'"
proof (induction cs arbitrary: w)
  case Nil
  then show ?case by simp
next
  case (Cons c cs)
  from Cons.prems(3) obtain w1 where w1: "perform E M w c = Inr w1" and r: "run E M w1 cs = Inr w'"
    by (auto split: sum.splits)
  from Cons.prems(2) have "c \<noteq> StepExit" and "StepExit \<notin> set cs" by auto
  with perform_keeps_step_open[OF Cons.prems(1) _ w1] Cons.IH[of w1] r show ?case by blast
qed

lemma after_step_enter:
  "step_enter w = Inr w' \<Longrightarrow> \<not> step_finalized w' \<and> \<not> geometry_finalized w'"
  by (auto simp: step_enter_def split: if_splits)

lemma open_after_step:
  assumes "run E M w (cs1 @ StepEnter # cs2) = Inr w'"
  shows "(GeometryExit \<notin> set cs2 \<longrightarrow> \<not> geometry_finalized w') \<and>
         (StepExit \<notin> set cs2 \<longrightarrow> \<not> step_finalized w')"
proof -
  from assms obtain w1 where w1: "run E M w cs1 = Inr w1"
    and r1: "run E M w1 (StepEnter # cs2) = Inr w'"
    by (auto simp: run_append split: sum.splits)
  from r1 obtain w2 where w2: "step_enter w1 = Inr w2" and r2: "run E M w2 cs2 = Inr w'"
    by (auto split: sum.splits)
  from after_step_enter[OF w2] geometry_stays_open[OF _ _ r2] step_stays_open[OF _ _ r2]
  show ?thesis by blast
qed

lemma refused_after_prefix:
  assumes "\<And>w'. run E M w cs = Inr w' \<Longrightarrow> perform E M w' c = Inl AssertionError"
  shows "isl (run E M w (cs @ [c]))"
proof (cases "run E M w cs")
  case (Inl e)
  then show ?thesis by (simp add: run_append)
next
  case (Inr w')
  with assms[OF Inr] show ?thesis by (simp add: run_append)
qed

text \<open>
  Claim C9, amended. In every run of calls on the writer, whatever was called before:
  once a step has been opened and the geometry context has not been left since, opening a
  field context (\<open>Writer.field\<close>, which hands out the field updater) is not accepted, and
  once a step has been opened and not been left since, opening a step is not accepted. The
  run with the out-of-order call at its end fails, and when the calls before it succeed the
  call itself raises \<open>AssertionError\<close>, the protocol violation. The calls in between may be
  any calls, geometry and field updates included.
\<close>

theorem writer_protocol_order:
  "(GeometryExit \<notin> set calls \<longrightarrow>
      isl (run E M w (earlier @ StepEnter # calls @ [FieldEnter])) \<and>
      (\<forall>w'. run E M w (earlier @ StepEnter # calls) = Inr w' \<longrightarrow>
            perform E M w' FieldEnter = Inl AssertionError)) \<and>
   (StepExit \<notin> set calls \<longrightarrow>
      isl (run E M w (earlier @ StepEnter # calls @ [StepEnter])) \<and>
      (\<forall>w'. run E M w (earlier @ StepEnter # calls) = Inr w' \<longrightarrow>
            perform E M w' StepEnter = Inl AssertionError))"
proof -
  have field: "perform E M w' FieldEnter = Inl AssertionError"
    if "GeometryExit \<notin> set calls" "run E M w (earlier @ StepEnter # calls) = Inr w'" for w'
    using open_after_step[OF that(2)] that(1) by (simp add: field_enter_def)
  have step: "perform E M w' StepEnter = Inl AssertionError"
    if "StepExit \<notin> set calls" "run E M w (earlier @ StepEnter # calls) = Inr w'" for w'
    using open_after_step[OF that(2)] that(1) by (simp add: step_enter_def)
  have f2: "isl (run E M w (earlier @ StepEnter # calls @ [FieldEnter]))" if "GeometryExit \<notin> set calls"
    using refused_after_prefix[of E M w "earlier @ StepEnter # calls" FieldEnter] field[OF that] by simp
  have s2: "isl (run E M w (earlier @ StepEnter # calls @ [StepEnter]))" if "StepExit \<notin> set calls"
    using refused_after_prefix[of E M w "earlier @ StepEnter # calls" StepEnter] step[OF that] by simp
  from field step f2 s2 show ?thesis by blast
qed

theorem writer_protocol_order_witness:
  "GeometryExit \<notin> set [GeometryEnter, UpdateGeometry (0 :: nat) (5 :: nat)] \<and>
   StepExit \<notin> set [GeometryEnter, UpdateGeometry (0 :: nat) (5 :: nat)] \<and>
   run keep_ncomps ''ascii'' (VTKWriter_enter :: (nat, nat) vtk_writer)
     ([] @ StepEnter # [GeometryEnter, UpdateGeometry 0 5]) = Inr geometry_open_writer \<and>
   isl (run keep_ncomps ''ascii'' (VTKWriter_enter :: (nat, nat) vtk_writer)
     ([] @ StepEnter # [GeometryEnter, UpdateGeometry 0 5] @ [FieldEnter])) \<and>
   perform keep_ncomps ''ascii'' geometry_open_writer FieldEnter = Inl AssertionError \<and>
   isl (run keep_ncomps ''ascii'' (VTKWriter_enter :: (nat, nat) vtk_writer)
     ([] @ StepEnter # [GeometryEnter, UpdateGeometry 0 5] @ [StepEnter])) \<and>
   perform keep_ncomps ''ascii'' geometry_open_writer StepEnter = Inl AssertionError"
proof -
  have no_exit: "GeometryExit \<notin> set [GeometryEnter, UpdateGeometry (0 :: nat) (5 :: nat)]"
    "StepExit \<notin> set [GeometryEnter, UpdateGeometry (0 :: nat) (5 :: nat)]"
    by simp_all
  have prefix: "run keep_ncomps ''ascii'' (VTKWriter_enter :: (nat, nat) vtk_writer)
     ([] @ StepEnter # [GeometryEnter, UpdateGeometry 0 5]) = Inr geometry_open_writer"
    using open_prefix by simp
  note order = writer_protocol_order[where calls = "[GeometryEnter, UpdateGeometry (0 :: nat) (5 :: nat)]"
      and E = keep_ncomps and M = "''ascii''" and w = "VTKWriter_enter :: (nat, nat) vtk_writer"
      and earlier = "[]"]
  from order no_exit prefix show ?thesis by blast
qed

text \<open>
  Claim C9, as stated, fails: the writer accepts a field update before geometry has been
  finalized for the current step. After a step and its geometry context are opened and one
  patch is written, \<open>geometry_finalized\<close> is \<open>False\<close>, and \<open>update_field\<close> stores the data and
  returns without an error; geometry is still open afterwards.
\<close>

theorem field_update_counterexample:
  "run keep_ncomps ''ascii'' (VTKWriter_enter :: (nat, nat) vtk_writer)
     [StepEnter, GeometryEnter, UpdateGeometry 0 5] = Inr geometry_open_writer \<and>
   \<not> geometry_finalized geometry_open_writer \<and>
   perform keep_ncomps ''ascii'' geometry_open_writer (UpdateField ''p'' False True 0 [[Num 1]])
     = Inr field_stored_writer \<and>
   vtk_fields field_stored_writer ''p'' \<noteq> None \<and>
   \<not> geometry_finalized field_stored_writer"
  using open_prefix update_field_open
  by (simp add: geometry_open_writer_def field_stored_writer_def)

end
